theory Spec2Isabelle
  imports Complex_Main "HOL-Library.AList"
begin

section \<open>Python values used by the federated training loop\<close>

text \<open>
  The development embeds the federated part of \<^verbatim>\<open>torchlib/utils.py\<close>:
  \<^verbatim>\<open>federated_avg\<close>, \<^verbatim>\<open>train_federated\<close>, \<^verbatim>\<open>synchronizer\<close> and
  \<^verbatim>\<open>train_on_server\<close>.

  Worker ids are strings. A Python float is modelled by a real number (exact arithmetic,
  no rounding), with one extra value for the IEEE not-a-number that numpy produces for
  \<^verbatim>\<open>0 / 0\<close> and for the mean of an empty list and that \<^verbatim>\<open>float("nan")\<close> returns;
  infinite floats are not represented. A Python reference that may be
  \<^verbatim>\<open>None\<close> is an \<open>option\<close>. A dictionary is an association list in insertion order;
  \<open>AList.update\<close> overwrites a present key in place and appends an absent one, as a
  Python dict does.
\<close>

type_synonym wid = string

datatype error =
  IndexError | KeyError | ZeroDivisionError | AttributeError | UnboundLocalError | ValueError

datatype pyfloat = Num real | NaN

type_synonym ('k, 'v) dict = "('k \<times> 'v) list"

definition getitem :: "('k, 'v) dict \<Rightarrow> 'k \<Rightarrow> error + 'v" where
  "getitem d k = (case map_of d k of None \<Rightarrow> Inl KeyError | Some v \<Rightarrow> Inr v)"

definition delitem :: "('k, 'v) dict \<Rightarrow> 'k \<Rightarrow> error + ('k, 'v) dict" where
  "delitem d k = (case map_of d k of None \<Rightarrow> Inl KeyError | Some v \<Rightarrow> Inr (AList.delete k d))"

text \<open>A dictionary filled by assigning the pairs of a list in order, starting empty.\<close>

definition dict_of :: "('k \<times> 'v) list \<Rightarrow> ('k, 'v) dict" where
  "dict_of kvs = foldl (\<lambda>d (k, v). AList.update k v d) [] kvs"

text \<open>\<^verbatim>\<open>np.mean\<close> of a list of floats: not-a-number (and a warning, no exception) when empty.\<close>

definition np_mean :: "real list \<Rightarrow> pyfloat" where
  "np_mean xs = (if xs = [] then NaN else Num (sum_list xs / real (length xs)))"

section \<open>The aggregation function\<close>

text \<open>
  \<^verbatim>\<open>scale_model\<close> and \<^verbatim>\<open>add_model\<close> are imported from PySyft
  (\<^verbatim>\<open>syft.frameworks.torch.fl.utils\<close>), so they are parameters here. Each takes the
  references it is called with (possibly \<^verbatim>\<open>None\<close>) and either raises or returns a
  module object; a module object is truthy in \<^verbatim>\<open>if model:\<close>.
\<close>

record 'm syft =
  scale_model :: "'m option \<Rightarrow> pyfloat \<Rightarrow> error + 'm"
  add_model :: "'m option \<Rightarrow> 'm option \<Rightarrow> error + 'm"

text \<open>
  Lines 402-408, the loop of the weighted branch. The accumulator \<open>model\<close> starts as
  \<^verbatim>\<open>None\<close>. The arguments of \<^verbatim>\<open>scale_model(partial_model, weights[id])\<close> are evaluated
  before the call, so a missing weight is a \<^verbatim>\<open>KeyError\<close>.
\<close>

fun weighted_loop ::
  "'m syft \<Rightarrow> (wid, pyfloat) dict \<Rightarrow> 'm option \<Rightarrow> (wid, 'm option) dict \<Rightarrow> error + 'm option"
where
  "weighted_loop L weights model [] = Inr model"
| "weighted_loop L weights model ((ident, partial_model) # rest) =
     (case getitem weights ident of
        Inl e \<Rightarrow> Inl e
      | Inr w \<Rightarrow>
         (case scale_model L partial_model w of
            Inl e \<Rightarrow> Inl e
          | Inr scaled_model \<Rightarrow>
             (case model of
                Some acc \<Rightarrow>
                  (case add_model L (Some acc) (Some scaled_model) of
                     Inl e \<Rightarrow> Inl e
                   | Inr m \<Rightarrow> weighted_loop L weights (Some m) rest)
              | None \<Rightarrow> weighted_loop L weights (Some scaled_model) rest)))"

text \<open>Lines 413-414, the loop of the uniform branch over \<^verbatim>\<open>model_list[1:]\<close>.\<close>

fun add_loop :: "'m syft \<Rightarrow> 'm option \<Rightarrow> 'm option list \<Rightarrow> error + 'm option" where
  "add_loop L model [] = Inr model"
| "add_loop L model (x # xs) =
     (case add_model L model x of
        Inl e \<Rightarrow> Inl e
      | Inr m \<Rightarrow> add_loop L (Some m) xs)"

text \<open>
  Lines 389-416. \<^verbatim>\<open>if weights:\<close> holds for a non-empty dictionary only; \<^verbatim>\<open>None\<close> and
  the empty dictionary take the uniform branch, where \<^verbatim>\<open>model_list[0]\<close> raises
  \<^verbatim>\<open>IndexError\<close> on an empty list (before \<^verbatim>\<open>1.0 / nr_models\<close> is reached).
  The result is the returned reference: \<open>Inr None\<close> is Python's \<^verbatim>\<open>None\<close>.
\<close>

definition federated_avg ::
  "'m syft \<Rightarrow> (wid, 'm option) dict \<Rightarrow> (wid, pyfloat) dict option \<Rightarrow> error + 'm option"
where
  "federated_avg L models weights =
     (case weights of
        Some (w # ws) \<Rightarrow> weighted_loop L (w # ws) None models
      | _ \<Rightarrow>
         (case map snd models of
            [] \<Rightarrow> Inl IndexError
          | m0 # ms \<Rightarrow>
             (case add_loop L m0 ms of
                Inl e \<Rightarrow> Inl e
              | Inr model \<Rightarrow>
                 (case scale_model L model (Num (1 / real (length models))) of
                    Inl e \<Rightarrow> Inl e
                  | Inr m \<Rightarrow> Inr (Some m)))))"

section \<open>The coordination state\<close>

text \<open>
  The manager dictionaries and values that \<^verbatim>\<open>train_federated\<close> creates (lines 458-466)
  and hands to every process. Loss checkpoints are keyed by a batch index or by the
  string \<^verbatim>\<open>"final"\<close>.
\<close>

datatype label = Batch nat | Final

record 'm shared =
  result_dict :: "(wid, 'm option) dict"
  waiting_for_sync_dict :: "(wid, bool) dict"
  sync_dict :: "(string, 'm option) dict"
  progress_dict :: "(wid, nat \<times> nat) dict"
  loss_dict :: "(wid, (label, pyfloat) dict) dict"
  stop_sync :: bool
  sync_completed :: bool

section \<open>The coordinator's resolution pass\<close>

text \<open>Lines 591-593: the dictionary \<^verbatim>\<open>models\<close> is filled from \<^verbatim>\<open>result_dict.items()\<close>.\<close>

definition collect_models :: "(wid, 'm option) dict \<Rightarrow> (wid, 'm option) dict" where
  "collect_models rd = dict_of rd"

text \<open>
  Lines 585-595. With one entry the loop over \<^verbatim>\<open>result_dict.values()\<close> stores that entry;
  with none nothing is done; otherwise every entry of \<^verbatim>\<open>result_dict\<close> goes to
  \<^verbatim>\<open>federated_avg\<close> together with the weights as they were passed in.
\<close>

definition resolve :: "'m syft \<Rightarrow> (wid, pyfloat) dict \<Rightarrow> 'm shared \<Rightarrow> error + 'm shared" where
  "resolve L weights s =
     (if length (result_dict s) = 1 then
        Inr (foldl (\<lambda>s' model. s'\<lparr>sync_dict := AList.update ''model'' model (sync_dict s')\<rparr>)
               s (map snd (result_dict s)))
      else if length (result_dict s) = 0 then Inr s
      else
        (case federated_avg L (collect_models (result_dict s)) (Some weights) of
           Inl e \<Rightarrow> Inl e
         | Inr avg_model \<Rightarrow>
             Inr (s\<lparr>sync_dict := AList.update ''model'' avg_model (sync_dict s)\<rparr>)))"

section \<open>Reading the federated options\<close>

text \<open>
  The federated options that \<^verbatim>\<open>Arguments.__init__\<close> reads (lines 124-148) from the
  section \<^verbatim>\<open>federated\<close> of the configuration file, when \<^verbatim>\<open>train_federated\<close> is set.
\<close>

record args =
  sync_every_n_batch :: int
  wait_interval :: pyfloat
  keep_optim_dict :: bool
  weighted_averaging :: bool

text \<open>
  An option of the section is absent (\<open>None\<close>) or has a text. For a numeric option the
  text is given by what Python's \<^verbatim>\<open>int\<close> or \<^verbatim>\<open>float\<close> makes of it: the number, or a
  \<^verbatim>\<open>ValueError\<close>. For a boolean option the text itself is kept.
\<close>

datatype 'a parsed = Rejected | Accepted 'a

record federated_section =
  sync_every_n_batch_opt :: "int parsed option"
  wait_interval_opt :: "pyfloat parsed option"
  keep_optim_dict_opt :: "string option"
  repetitions_dataset_opt :: "int parsed option"
  weighted_averaging_opt :: "string option"

text \<open>
  \<^verbatim>\<open>ConfigParser.getint\<close> and \<^verbatim>\<open>getfloat\<close> with a fallback: the fallback stands in
  for an absent option only; a text that the conversion rejects raises. No range is
  checked.
\<close>

definition getint :: "int parsed option \<Rightarrow> int \<Rightarrow> error + int" where
  "getint v fallback =
     (case v of None \<Rightarrow> Inr fallback | Some Rejected \<Rightarrow> Inl ValueError | Some (Accepted n) \<Rightarrow> Inr n)"

definition getfloat :: "pyfloat parsed option \<Rightarrow> pyfloat \<Rightarrow> error + pyfloat" where
  "getfloat v fallback =
     (case v of None \<Rightarrow> Inr fallback | Some Rejected \<Rightarrow> Inl ValueError | Some (Accepted x) \<Rightarrow> Inr x)"

text \<open>
  \<^verbatim>\<open>ConfigParser.getboolean\<close>: the text is put in lower case and looked up among the
  eight words of \<^verbatim>\<open>BOOLEAN_STATES\<close>; any other text raises \<^verbatim>\<open>ValueError\<close>.
\<close>

definition ascii_lower :: "char \<Rightarrow> char" where
  "ascii_lower c =
     (let n = (of_char c :: nat) in if 65 \<le> n \<and> n \<le> 90 then char_of (n + 32) else c)"

definition getboolean :: "string option \<Rightarrow> bool \<Rightarrow> error + bool" where
  "getboolean v fallback =
     (case v of
        None \<Rightarrow> Inr fallback
      | Some raw \<Rightarrow>
          (let word = map ascii_lower raw in
           if word \<in> set [''1'', ''yes'', ''true'', ''on''] then Inr True
           else if word \<in> set [''0'', ''no'', ''false'', ''off''] then Inr False
           else Inl ValueError))"

text \<open>
  Lines 125-148 in their order; the first conversion that raises ends the construction
  of the arguments. \<^verbatim>\<open>repetitions_dataset\<close> only rescales \<^verbatim>\<open>self.epochs\<close>, which the
  federated loop of one epoch does not read, so its value is not kept.
\<close>

definition arguments_federated :: "federated_section \<Rightarrow> error + args" where
  "arguments_federated cfg =
     (case getint (sync_every_n_batch_opt cfg) 10 of
        Inl e \<Rightarrow> Inl e
      | Inr n \<Rightarrow>
     (case getfloat (wait_interval_opt cfg) (Num (1 / 10)) of
        Inl e \<Rightarrow> Inl e
      | Inr wi \<Rightarrow>
     (case getboolean (keep_optim_dict_opt cfg) False of
        Inl e \<Rightarrow> Inl e
      | Inr keep \<Rightarrow>
     (case getint (repetitions_dataset_opt cfg) 1 of
        Inl e \<Rightarrow> Inl e
      | Inr repetitions \<Rightarrow>
     (case getboolean (weighted_averaging_opt cfg) False of
        Inl e \<Rightarrow> Inl e
      | Inr weighted \<Rightarrow>
          Inr \<lparr>sync_every_n_batch = n, wait_interval = wi, keep_optim_dict = keep,
               weighted_averaging = weighted\<rparr>)))))"

text \<open>
  \<^verbatim>\<open>time.sleep\<close>: a negative length and not-a-number raise \<^verbatim>\<open>ValueError\<close>; otherwise
  the call returns after that many seconds, given here as the result.
\<close>

definition sleep :: "pyfloat \<Rightarrow> error + real" where
  "sleep secs = (case secs of Num x \<Rightarrow> if x < 0 then Inl ValueError else Inr x | NaN \<Rightarrow> Inl ValueError)"

section \<open>Orchestration start\<close>

text \<open>
  \<^verbatim>\<open>train_loaders\<close> is given by its items: the id of each worker with the length of its
  loader. Lines 459-472 create the shared state and register every worker.
\<close>

definition empty_shared :: "'m shared" where
  "empty_shared = \<lparr>result_dict = [], waiting_for_sync_dict = [], sync_dict = [],
     progress_dict = [], loss_dict = [], stop_sync = False, sync_completed = False\<rparr>"

definition register_worker :: "'m shared \<Rightarrow> wid \<times> nat \<Rightarrow> 'm shared" where
  "register_worker s = (\<lambda>(ident, n).
     s\<lparr>result_dict := AList.update ident None (result_dict s),
       loss_dict := AList.update ident [] (loss_dict s),
       waiting_for_sync_dict := AList.update ident False (waiting_for_sync_dict s),
       progress_dict := AList.update ident (0, n) (progress_dict s)\<rparr>)"

definition train_federated_init :: "(wid \<times> nat) list \<Rightarrow> 'm shared" where
  "train_federated_init train_loaders = foldl register_worker empty_shared train_loaders"

text \<open>
  Lines 474-479. The division is numpy's: an array divided by a count of zero gives
  not-a-number entries (every batch count is zero when their sum is), not an exception.
\<close>

definition total_batches :: "(wid, nat \<times> nat) dict \<Rightarrow> nat" where
  "total_batches pd = foldl (\<lambda>acc (idt, (_, batches)). acc + batches) 0 pd"

definition np_divide :: "nat \<Rightarrow> nat \<Rightarrow> pyfloat" where
  "np_divide batches n = (if n = 0 then NaN else Num (real batches / real n))"

definition batch_weights :: "(wid, nat \<times> nat) dict \<Rightarrow> pyfloat list" where
  "batch_weights pd = map (\<lambda>(idt, (_, batches)). np_divide batches (total_batches pd)) pd"

text \<open>Lines 480-485: the weights dictionary handed to the coordinator.\<close>

definition make_w_dict :: "args \<Rightarrow> (wid, nat \<times> nat) dict \<Rightarrow> (wid, pyfloat) dict" where
  "make_w_dict a pd =
     (if weighted_averaging a then
        foldl (\<lambda>w_dict (weight, idt). AList.update idt weight w_dict) []
          (zip (batch_weights pd) (map fst pd))
      else
        foldl (\<lambda>w_dict idt. AList.update idt (Num (1 / real (length (map fst pd)))) w_dict) []
          (map fst pd))"

section \<open>The coordinator\<close>

text \<open>
  \<^verbatim>\<open>synchronizer\<close> (lines 564-652) runs in a process of its own, so it is a machine over
  the shared state with a program counter: \<open>COuter\<close> is the test of the outer
  \<^verbatim>\<open>while\<close>, \<open>CInner\<close> the test of the wait loop, \<open>CResolve\<close> lines 585-595,
  \<open>CRelease\<close> lines 596-597, \<open>CSignal\<close> line 652. The arguments of its
  \<^verbatim>\<open>sleep\<close> calls are logged in \<open>csleeps\<close>.
\<close>

datatype cpc = COuter | CInner | CResolve | CRelease | CSignal | CDone | CFailed error

record clocal =
  cpc :: cpc
  csleeps :: "real list"

definition release_all :: "(wid, bool) dict \<Rightarrow> (wid, bool) dict" where
  "release_all w = foldl (\<lambda>d k. AList.update k False d) w (map fst w)"

text \<open>
  One step of the coordinator. \<open>wait_interval'\<close> is the keyword argument
  \<^verbatim>\<open>wait_interval\<close> of line 575,
  which \<^verbatim>\<open>train_federated\<close> sets to \<^verbatim>\<open>args.wait_interval\<close> (line 526); the wait loop
  of line 583 calls \<^verbatim>\<open>sleep(0.1)\<close>, which cannot raise.
\<close>

definition synchronizer_step ::
  "'m syft \<Rightarrow> (wid, pyfloat) dict \<Rightarrow> pyfloat \<Rightarrow> 'm shared \<times> clocal \<Rightarrow> 'm shared \<times> clocal"
where
  "synchronizer_step L weights wait_interval' = (\<lambda>(s, c).
     (case cpc c of
        COuter \<Rightarrow>
          if \<not> stop_sync s then (s, c\<lparr>cpc := CInner\<rparr>) else (s, c\<lparr>cpc := CDone\<rparr>)
      | CInner \<Rightarrow>
          if \<not> list_all (\<lambda>v. v) (map snd (waiting_for_sync_dict s)) \<and> \<not> stop_sync s
          then (s, c\<lparr>csleeps := csleeps c @ [1 / 10]\<rparr>)
          else (s, c\<lparr>cpc := CResolve\<rparr>)
      | CResolve \<Rightarrow>
          (case resolve L weights s of
             Inl e \<Rightarrow> (s, c\<lparr>cpc := CFailed e\<rparr>)
           | Inr s' \<Rightarrow> (s', c\<lparr>cpc := CRelease\<rparr>))
      | CRelease \<Rightarrow>
          (s\<lparr>waiting_for_sync_dict := release_all (waiting_for_sync_dict s)\<rparr>,
           c\<lparr>cpc := CSignal\<rparr>)
      | CSignal \<Rightarrow> (s\<lparr>sync_completed := True\<rparr>, c\<lparr>cpc := COuter\<rparr>)
      | CDone \<Rightarrow> (s, c)
      | CFailed e \<Rightarrow> (s, c)))"

text \<open>
  A run of the coordinator among the other processes: before each of its steps the
  environment (workers, the orchestrator) changes the shared state by the next function
  of the list. The result is the sequence of configurations the coordinator goes through.
\<close>

fun synchronizer_run ::
  "'m syft \<Rightarrow> (wid, pyfloat) dict \<Rightarrow> pyfloat \<Rightarrow> ('m shared \<Rightarrow> 'm shared) list
     \<Rightarrow> 'm shared \<times> clocal \<Rightarrow> ('m shared \<times> clocal) list"
where
  "synchronizer_run L weights wi [] cfg = [cfg]"
| "synchronizer_run L weights wi (env # envs) cfg =
     cfg # synchronizer_run L weights wi envs (synchronizer_step L weights wi (env (fst cfg), snd cfg))"

definition cterminal :: "cpc \<Rightarrow> bool" where
  "cterminal p = (case p of CDone \<Rightarrow> True | CFailed e \<Rightarrow> True | _ \<Rightarrow> False)"

section \<open>The worker\<close>

text \<open>
  The local optimisation step (lines 697-704: forward, loss, backward, update; it returns
  the new model, the new optimizer state and the loss value) and the optimizer
  re-initialisation of lines 690-694 belong to PyTorch and are parameters.
\<close>

record ('m, 'o, 'b) trainer =
  local_step :: "'m \<Rightarrow> 'o \<Rightarrow> 'b \<Rightarrow> 'm \<times> 'o \<times> real"
  reinit_optimizer :: "'m \<Rightarrow> 'o \<Rightarrow> 'o"

text \<open>
  \<^verbatim>\<open>train_on_server\<close> (lines 655-711) as a machine: \<open>WLoop\<close> is the head of the
  \<^verbatim>\<open>for\<close> loop with line 676 and the test of lines 677-681, \<open>WPublish\<close> line 683,
  \<open>WRecordLoss\<close> line 684, \<open>WClear\<close> line 685, \<open>WSetWaiting\<close> line 686,
  \<open>WWait\<close> lines 687-688, \<open>WLoad\<close> lines 689-696, \<open>WTrain\<close> lines 697-704,
  \<open>WFinalModel\<close> line 707, \<open>WFinalLoss\<close> line 708, \<open>WFinalProgress\<close> line 709,
  \<open>WDelWaiting\<close> line 710. \<open>pending\<close> holds the batches the loader has yet to
  yield, the current one first; \<open>batch_idx\<close> is unbound before the first iteration;
  \<open>wsleeps\<close> logs the lengths of the completed \<^verbatim>\<open>sleep\<close> calls.
\<close>

datatype wpc =
  WLoop | WPublish | WRecordLoss | WClear | WSetWaiting | WWait | WLoad | WTrain
  | WFinalModel | WFinalLoss | WFinalProgress | WDelWaiting | WDone | WFailed error

record ('m, 'o, 'b) wlocal =
  wpc :: wpc
  batch_idx :: "nat option"
  model :: 'm
  optimizer :: 'o
  avg_loss :: "real list"
  pending :: "'b list"
  wsleeps :: "real list"

definition init_wlocal :: "'m \<Rightarrow> 'o \<Rightarrow> 'b list \<Rightarrow> ('m, 'o, 'b) wlocal" where
  "init_wlocal m opt train_loader = \<lparr>wpc = WLoop, batch_idx = None, model = m, optimizer = opt,
     avg_loss = [], pending = train_loader, wsleeps = []\<rparr>"

text \<open>
  Lines 677-681: \<^verbatim>\<open>batch_idx % args.sync_every_n_batch == 0 and batch_idx > 0\<close>. The
  remainder is computed first, so an interval of zero raises at every index; Python's
  \<^verbatim>\<open>%\<close> on integers is the flooring \<open>mod\<close>.
\<close>

definition sync_point :: "args \<Rightarrow> nat \<Rightarrow> error + bool" where
  "sync_point a i =
     (if sync_every_n_batch a = 0 then Inl ZeroDivisionError
      else Inr (int i mod sync_every_n_batch a = 0 \<and> 0 < i))"

definition wfail :: "error \<Rightarrow> ('m, 'o, 'b) wlocal \<Rightarrow> ('m, 'o, 'b) wlocal" where
  "wfail e w = w\<lparr>wpc := WFailed e\<rparr>"

text \<open>
  One step of the worker \<open>ident\<close> whose loader has \<open>L\<close> batches. In an assignment
  \<^verbatim>\<open>d[k] = v\<close> Python evaluates \<open>v\<close> before \<open>d\<close>, which orders the errors of
  lines 684 and 708.
\<close>

definition train_on_server_step ::
  "('m, 'o, 'b) trainer \<Rightarrow> args \<Rightarrow> wid \<Rightarrow> nat
     \<Rightarrow> 'm shared \<times> ('m, 'o, 'b) wlocal \<Rightarrow> 'm shared \<times> ('m, 'o, 'b) wlocal"
where
  "train_on_server_step T a ident L = (\<lambda>(s, w).
     (case wpc w of
        WLoop \<Rightarrow>
          (case pending w of
             [] \<Rightarrow> (s, w\<lparr>wpc := WFinalModel\<rparr>)
           | b # bs \<Rightarrow>
               let i = (case batch_idx w of None \<Rightarrow> 0 | Some j \<Rightarrow> j + 1);
                   s' = s\<lparr>progress_dict := AList.update ident (i, L) (progress_dict s)\<rparr>;
                   w' = w\<lparr>batch_idx := Some i\<rparr>
               in (case sync_point a i of
                     Inl e \<Rightarrow> (s', wfail e w')
                   | Inr True \<Rightarrow> (s', w'\<lparr>wpc := WPublish\<rparr>)
                   | Inr False \<Rightarrow> (s', w'\<lparr>wpc := WTrain\<rparr>)))
      | WPublish \<Rightarrow>
          (s\<lparr>result_dict := AList.update ident (Some (model w)) (result_dict s)\<rparr>,
           w\<lparr>wpc := WRecordLoss\<rparr>)
      | WRecordLoss \<Rightarrow>
          (case batch_idx w of
             None \<Rightarrow> (s, wfail UnboundLocalError w)
           | Some i \<Rightarrow>
               if avg_loss w = [] then (s, wfail IndexError w)
               else
                 (case getitem (loss_dict s) ident of
                    Inl e \<Rightarrow> (s, wfail e w)
                  | Inr losses \<Rightarrow>
                      (s\<lparr>loss_dict := AList.update ident
                            (AList.update (Batch i) (Num (last (avg_loss w))) losses) (loss_dict s)\<rparr>,
                       w\<lparr>wpc := WClear\<rparr>)))
      | WClear \<Rightarrow> (s\<lparr>sync_completed := False\<rparr>, w\<lparr>wpc := WSetWaiting\<rparr>)
      | WSetWaiting \<Rightarrow>
          (s\<lparr>waiting_for_sync_dict := AList.update ident True (waiting_for_sync_dict s)\<rparr>,
           w\<lparr>wpc := WWait\<rparr>)
      | WWait \<Rightarrow>
          if \<not> sync_completed s then
            (case sleep (wait_interval a) of
               Inl e \<Rightarrow> (s, wfail e w)
             | Inr secs \<Rightarrow> (s, w\<lparr>wsleeps := wsleeps w @ [secs]\<rparr>))
          else (s, w\<lparr>wpc := WLoad\<rparr>)
      | WLoad \<Rightarrow>
          (case getitem (sync_dict s) ''model'' of
             Inl e \<Rightarrow> (s, wfail e w)
           | Inr None \<Rightarrow> (s, wfail AttributeError w)
           | Inr (Some merged) \<Rightarrow>
               (s, w\<lparr>model := merged,
                     optimizer := (if \<not> keep_optim_dict a
                                   then reinit_optimizer T merged (optimizer w) else optimizer w),
                     wpc := WTrain\<rparr>))
      | WTrain \<Rightarrow>
          (case pending w of
             [] \<Rightarrow> (s, w\<lparr>wpc := WLoop\<rparr>)
           | b # bs \<Rightarrow>
               (case local_step T (model w) (optimizer w) b of
                  (m', opt', loss) \<Rightarrow>
                    (s, w\<lparr>model := m', optimizer := opt', avg_loss := avg_loss w @ [loss],
                          pending := bs, wpc := WLoop\<rparr>)))
      | WFinalModel \<Rightarrow>
          (s\<lparr>result_dict := AList.update ident (Some (model w)) (result_dict s)\<rparr>,
           w\<lparr>wpc := WFinalLoss\<rparr>)
      | WFinalLoss \<Rightarrow>
          (case getitem (loss_dict s) ident of
             Inl e \<Rightarrow> (s, wfail e w)
           | Inr losses \<Rightarrow>
               (s\<lparr>loss_dict := AList.update ident
                     (AList.update Final (np_mean (avg_loss w)) losses) (loss_dict s)\<rparr>,
                w\<lparr>wpc := WFinalProgress\<rparr>))
      | WFinalProgress \<Rightarrow>
          (case batch_idx w of
             None \<Rightarrow> (s, wfail UnboundLocalError w)
           | Some i \<Rightarrow>
               (s\<lparr>progress_dict := AList.update ident (i + 1, L) (progress_dict s)\<rparr>,
                w\<lparr>wpc := WDelWaiting\<rparr>))
      | WDelWaiting \<Rightarrow>
          (case delitem (waiting_for_sync_dict s) ident of
             Inl e \<Rightarrow> (s, wfail e w)
           | Inr waiting \<Rightarrow> (s\<lparr>waiting_for_sync_dict := waiting\<rparr>, w\<lparr>wpc := WDone\<rparr>))
      | WDone \<Rightarrow> (s, w)
      | WFailed e \<Rightarrow> (s, w)))"

text \<open>
  What holds of the worker's own variables at each point of its code: at the head of the
  loop and after it the list \<open>avg_loss\<close> has one loss per batch processed so far; inside
  an iteration \<open>batch_idx\<close> is the number of losses already recorded and a batch is at hand.
\<close>

definition next_idx :: "('m, 'o, 'b) wlocal \<Rightarrow> nat" where
  "next_idx w = (case batch_idx w of None \<Rightarrow> 0 | Some j \<Rightarrow> j + 1)"

definition wlocal_inv :: "('m, 'o, 'b) wlocal \<Rightarrow> bool" where
  "wlocal_inv w =
     (case wpc w of
        WLoop \<Rightarrow> length (avg_loss w) = next_idx w
      | WFinalModel \<Rightarrow> length (avg_loss w) = next_idx w
      | WFinalLoss \<Rightarrow> length (avg_loss w) = next_idx w
      | WFinalProgress \<Rightarrow> length (avg_loss w) = next_idx w
      | WDelWaiting \<Rightarrow> length (avg_loss w) = next_idx w
      | WDone \<Rightarrow> True
      | WFailed e \<Rightarrow> True
      | _ \<Rightarrow> batch_idx w = Some (length (avg_loss w)) \<and> pending w \<noteq> [])"

section \<open>A one-parameter model\<close>

text \<open>
  The behaviour of PySyft's two functions on a model with a single scalar parameter:
  \<^verbatim>\<open>scale_model\<close> multiplies the parameter by the scale, \<^verbatim>\<open>add_model\<close> adds the
  parameter of the second model to that of the first, and both read
  \<^verbatim>\<open>named_parameters\<close> of their model arguments, which \<^verbatim>\<open>None\<close> does not have.
  It instantiates the parameters of the aggregation on concrete inputs.
\<close>

fun fmul :: "pyfloat \<Rightarrow> pyfloat \<Rightarrow> pyfloat" where
  "fmul (Num x) (Num y) = Num (x * y)"
| "fmul _ _ = NaN"

fun fadd :: "pyfloat \<Rightarrow> pyfloat \<Rightarrow> pyfloat" where
  "fadd (Num x) (Num y) = Num (x + y)"
| "fadd _ _ = NaN"

definition probe_syft :: "pyfloat syft" where
  "probe_syft = \<lparr>
     scale_model = (\<lambda>m scale. case m of None \<Rightarrow> Inl AttributeError | Some p \<Rightarrow> Inr (fmul p scale)),
     add_model = (\<lambda>dst src. case (dst, src) of
                     (Some p, Some q) \<Rightarrow> Inr (fadd q p)
                   | _ \<Rightarrow> Inl AttributeError)\<rparr>"

text \<open>A trainer on such models whose batches are the losses it reports; it leaves the model as it is.\<close>

definition probe_trainer :: "(pyfloat, unit, real) trainer" where
  "probe_trainer = \<lparr>local_step = (\<lambda>m opt b. (m, opt, b)), reinit_optimizer = (\<lambda>m opt. opt)\<rparr>"

section \<open>Dictionaries with distinct keys\<close>

lemma foldl_update_append:
  "distinct (map fst acc @ map fst kvs) \<Longrightarrow>
   foldl (\<lambda>d (k, v). AList.update k v d) acc kvs = acc @ kvs"
proof (induction kvs arbitrary: acc)
  case Nil
  then show ?case by simp
next
  case (Cons kv kvs)
  obtain k v where kv: "kv = (k, v)" by (cases kv)
  from Cons.prems have notin: "k \<notin> fst ` set acc" by (auto simp: kv)
  then have upd: "AList.update k v acc = acc @ [(k, v)]"
    by (induction acc) auto
  from Cons.prems have "distinct (map fst (acc @ [(k, v)]) @ map fst kvs)"
    by (auto simp: kv)
  from Cons.IH[OF this] show ?case by (simp add: kv upd)
qed

lemma foldl_update_nil:
  "distinct (map fst kvs) \<Longrightarrow> foldl (\<lambda>d (k, v). AList.update k v d) [] kvs = kvs"
  using foldl_update_append[of "[]" kvs] by simp

lemma dict_of_distinct: "distinct (map fst kvs) \<Longrightarrow> dict_of kvs = kvs"
  by (simp add: dict_of_def foldl_update_nil)


section \<open>The weights computed at orchestration start\<close>

lemma progress_register:
  "progress_dict (register_worker s (ident, n)) = AList.update ident (0, n) (progress_dict s)"
  by (simp add: register_worker_def)

lemma distinct_progress_foldl:
  "distinct (map fst (progress_dict s)) \<Longrightarrow>
   distinct (map fst (progress_dict (foldl register_worker s ls)))"
proof (induction ls arbitrary: s)
  case Nil
  then show ?case by simp
next
  case (Cons l ls)
  obtain i n where l: "l = (i, n)" by (cases l)
  show ?case using Cons.prems
    by (simp add: l Cons.IH progress_register AList.distinct_update)
qed

lemma distinct_progress_init:
  "distinct (map fst (progress_dict (train_federated_init ls)))"
  by (simp add: train_federated_init_def distinct_progress_foldl empty_shared_def)

lemma total_batches_sum: "total_batches pd = sum_list (map (snd \<circ> snd) pd)"
proof -
  have "foldl (\<lambda>acc (idt, (_, batches)). acc + batches) t pd = t + sum_list (map (snd \<circ> snd) pd)" for t
    by (induction pd arbitrary: t) auto
  then show ?thesis by (simp add: total_batches_def)
qed

lemma weighted_w_dict:
  assumes d: "distinct (map fst pd)" and w: "weighted_averaging a"
  shows "make_w_dict a pd = map (\<lambda>(idt, (c, batches)). (idt, np_divide batches (total_batches pd))) pd"
proof -
  define ys where "ys = map (\<lambda>(idt, (c, batches)). (idt, np_divide batches (total_batches pd))) pd"
  have "zip (map (\<lambda>(idt, (_, batches)). f batches) xs) (map fst xs)
      = map prod.swap (map (\<lambda>(idt, (c, batches)). (idt, f batches)) xs)"
    for f :: "nat \<Rightarrow> pyfloat" and xs :: "(wid, nat \<times> nat) dict"
    by (induction xs) auto
  then have z: "zip (batch_weights pd) (map fst pd) = map prod.swap ys"
    unfolding ys_def batch_weights_def .
  have f: "foldl (\<lambda>w_dict (weight, idt). AList.update idt weight w_dict) [] (map prod.swap ys)
         = foldl (\<lambda>d (k, v). AList.update k v d) [] ys"
    by (simp add: foldl_map split_def)
  have "map fst (map (\<lambda>(idt, (c, batches)). (idt, f batches)) xs) = map fst xs"
    for f :: "nat \<Rightarrow> pyfloat" and xs :: "(wid, nat \<times> nat) dict"
    by (induction xs) auto
  then have "map fst ys = map fst pd" unfolding ys_def .
  then have dd: "distinct (map fst ys)" using d by simp
  have "make_w_dict a pd
      = foldl (\<lambda>w_dict (weight, idt). AList.update idt weight w_dict) [] (map prod.swap ys)"
    using w by (simp only: make_w_dict_def z if_True)
  also have "\<dots> = ys" using f foldl_update_nil[OF dd] by simp
  finally show ?thesis by (simp only: ys_def)
qed

lemma uniform_w_dict:
  assumes d: "distinct (map fst pd)" and w: "\<not> weighted_averaging a"
  shows "make_w_dict a pd = map (\<lambda>(idt, p). (idt, Num (1 / real (length pd)))) pd"
proof -
  define ys where "ys = map (\<lambda>(idt, p). (idt, Num (1 / real (length pd)))) pd"
  have f: "foldl (\<lambda>w_dict idt. AList.update idt (Num (1 / real (length pd))) w_dict) [] (map fst pd)
         = foldl (\<lambda>d (k, v). AList.update k v d) [] ys"
    unfolding ys_def by (simp add: foldl_map split_def)
  have "map fst (map (\<lambda>(idt, p). (idt, v)) xs) = map fst xs"
    for v :: pyfloat and xs :: "(wid, nat \<times> nat) dict"
    by (induction xs) auto
  then have "map fst ys = map fst pd" unfolding ys_def .
  then have dd: "distinct (map fst ys)" using d by simp
  have "make_w_dict a pd
      = foldl (\<lambda>w_dict idt. AList.update idt (Num (1 / real (length pd))) w_dict) [] (map fst pd)"
    using w by (simp add: make_w_dict_def)
  also have "\<dots> = ys" using f foldl_update_nil[OF dd] by simp
  finally show ?thesis by (simp only: ys_def)
qed

lemma map_of_map_entry:
  "map_of pd ident = Some (c, batches) \<Longrightarrow>
   map_of (map (\<lambda>(idt, (c, batches)). (idt, f batches)) pd) ident = Some (f batches)"
  by (induction pd) (auto split: if_splits)

lemma map_of_map_const:
  "map_of pd ident = Some p \<Longrightarrow>
   map_of (map (\<lambda>(idt, p). (idt, v)) pd) ident = Some v"
  by (induction pd) (auto split: if_splits)

text \<open>
  Claim C5. Let \<open>pd\<close> be the progress dictionary as \<open>train_federated\<close> fills it before
  any process is started, and let worker \<open>ident\<close> own \<open>batches\<close> batches in it. With
  weighted averaging, and at least one batch overall, the weight of \<open>ident\<close> in the
  dictionary handed to the coordinator is \<open>batches\<close> divided by the sum of all batch
  counts; without it, the weight is one over the number of workers. For workers A with
  300 and B with 100 batches the weights are 0.75 and 0.25, and merging a parameter
  that is 2.0 at A and 0.0 at B gives 1.5.
\<close>

theorem train_federated_weights:
  assumes pd: "pd = progress_dict (train_federated_init train_loaders :: pyfloat shared)"
    and mem: "(ident, (c, batches)) \<in> set pd"
  shows "(weighted_averaging a \<and> 0 < total_batches pd \<longrightarrow>
            getitem (make_w_dict a pd) ident = Inr (Num (real batches / real (total_batches pd))))
       \<and> (\<not> weighted_averaging a \<longrightarrow>
            getitem (make_w_dict a pd) ident = Inr (Num (1 / real (length pd))))
       \<and> total_batches pd = sum_list (map (snd \<circ> snd) pd)
       \<and> make_w_dict (a\<lparr>weighted_averaging := True\<rparr>)
            (progress_dict (train_federated_init [(''A'', 300), (''B'', 100)] :: pyfloat shared))
          = [(''A'', Num (3 / 4)), (''B'', Num (1 / 4))]
       \<and> federated_avg probe_syft [(''A'', Some (Num 2)), (''B'', Some (Num 0))]
            (Some [(''A'', Num (3 / 4)), (''B'', Num (1 / 4))]) = Inr (Some (Num (3 / 2)))"
proof -
  have d: "distinct (map fst pd)" by (simp add: pd distinct_progress_init)
  have m: "map_of pd ident = Some (c, batches)" using d mem by (rule map_of_is_SomeI)
  have 1: "getitem (make_w_dict a pd) ident = Inr (Num (real batches / real (total_batches pd)))"
    if w: "weighted_averaging a" and t: "0 < total_batches pd"
  proof -
    have "getitem (make_w_dict a pd) ident = Inr (np_divide batches (total_batches pd))"
      by (simp only: weighted_w_dict[OF d w] getitem_def
            map_of_map_entry[OF m, of "\<lambda>b. np_divide b (total_batches pd)"] option.case)
    then show ?thesis using t by (simp add: np_divide_def)
  qed
  have 2: "getitem (make_w_dict a pd) ident = Inr (Num (1 / real (length pd)))"
    if w: "\<not> weighted_averaging a"
    by (simp add: uniform_w_dict[OF d w] getitem_def
          map_of_map_const[OF m, of "Num (1 / real (length pd))"])
  have 3: "make_w_dict (a\<lparr>weighted_averaging := True\<rparr>)
            (progress_dict (train_federated_init [(''A'', 300), (''B'', 100)] :: pyfloat shared))
          = [(''A'', Num (3 / 4)), (''B'', Num (1 / 4))]"
    by (simp add: make_w_dict_def train_federated_init_def register_worker_def empty_shared_def
          batch_weights_def total_batches_def np_divide_def)
  have 4: "federated_avg probe_syft [(''A'', Some (Num 2)), (''B'', Some (Num 0))]
            (Some [(''A'', Num (3 / 4)), (''B'', Num (1 / 4))]) = Inr (Some (Num (3 / 2)))"
    by (simp add: federated_avg_def probe_syft_def getitem_def)
  show ?thesis using 1 2 3 4 total_batches_sum by blast
qed

theorem train_federated_weights_witness:
  "getitem (make_w_dict \<lparr>sync_every_n_batch = 10, wait_interval = Num (1 / 10), keep_optim_dict = False,
              weighted_averaging = True\<rparr>
      (progress_dict (train_federated_init [(''A'', 300), (''B'', 100)] :: pyfloat shared))) ''B''
     = Inr (Num (1 / 4))
   \<and> getitem (make_w_dict \<lparr>sync_every_n_batch = 10, wait_interval = Num (1 / 10), keep_optim_dict = False,
              weighted_averaging = False\<rparr>
      (progress_dict (train_federated_init [(''A'', 300), (''B'', 100)] :: pyfloat shared))) ''B''
     = Inr (Num (1 / 2))"
proof -
  let ?pd = "progress_dict (train_federated_init [(''A'', 300), (''B'', 100)] :: pyfloat shared)"
  have e: "?pd = [(''A'', (0, 300)), (''B'', (0, 100))]"
    by (simp add: train_federated_init_def register_worker_def empty_shared_def)
  have mem: "(''B'', (0, 100)) \<in> set ?pd" by (simp add: e)
  have t: "total_batches ?pd = 400" by (simp add: e total_batches_def)
  show ?thesis
    using train_federated_weights[OF refl mem, of "\<lparr>sync_every_n_batch = 10, wait_interval = Num (1 / 10),
              keep_optim_dict = False, weighted_averaging = True\<rparr>"]
      train_federated_weights[OF refl mem, of "\<lparr>sync_every_n_batch = 10, wait_interval = Num (1 / 10),
              keep_optim_dict = False, weighted_averaging = False\<rparr>"]
    by (simp add: t e getitem_def)
qed

section \<open>Properties of the resolution pass\<close>



text \<open>
  Claim C1 does not hold as stated. Worker A has four batches and worker B two, with a
  synchronisation every two batches and weights by batch count (2/3 and 1/3). B runs to
  its end and removes its waiting flag; A reaches its synchronisation point at index 2
  and waits. The only id whose waiting flag is true is A, yet the coordinator merges
  both entries of \<open>result_dict\<close> with the weights as configured: the merged parameter
  is \<open>2 \<cdot> 2/3 + 0 \<cdot> 1/3 = 4/3\<close>, not the model of A.
\<close>

theorem resolve_waiting_only_counterexample:
  "(let a = \<lparr>sync_every_n_batch = 2, wait_interval = Num (1 / 10), keep_optim_dict = False,
              weighted_averaging = True\<rparr>;
        s0 = train_federated_init [(''A'', 4), (''B'', 2)];
        weights = make_w_dict a (progress_dict s0);
        (s1, wB) = (train_on_server_step probe_trainer a ''B'' 2 ^^ 9)
                     (s0, init_wlocal (Num 0) () [1, 1]);
        (s2, wA) = (train_on_server_step probe_trainer a ''A'' 4 ^^ 9)
                     (s1, init_wlocal (Num 2) () [1, 1, 1, 1]);
        (s3, c) = (synchronizer_step probe_syft weights (Num (1 / 10)) ^^ 3)
                     (s2, \<lparr>cpc = COuter, csleeps = []\<rparr>)
    in wpc wB = WDone \<and> wpc wA = WWait
       \<and> map fst (filter snd (waiting_for_sync_dict s2)) = [''A'']
       \<and> map fst (collect_models (result_dict s2)) = [''A'', ''B'']
       \<and> length (collect_models (result_dict s2)) \<noteq> length (filter snd (waiting_for_sync_dict s2))
       \<and> weights = [(''A'', Num (2 / 3)), (''B'', Num (1 / 3))]
       \<and> sync_dict s3 = [(''model'', Some (Num (4 / 3)))]
       \<and> sync_dict s3 \<noteq> [(''model'', Some (Num 2))])"
  by (simp add: train_federated_init_def register_worker_def empty_shared_def make_w_dict_def
        batch_weights_def total_batches_def np_divide_def train_on_server_step_def init_wlocal_def
        probe_trainer_def sync_point_def wfail_def getitem_def delitem_def np_mean_def
        synchronizer_step_def resolve_def collect_models_def dict_of_def federated_avg_def
        probe_syft_def eval_nat_numeral Let_def)

text \<open>
  Claim C1 as amended. In a round with at least two entries in \<open>result_dict\<close> the
  coordinator merges every entry of \<open>result_dict\<close> (so the number of merged entries is
  the size of \<open>result_dict\<close>), with the weights dictionary as it was configured, neither
  restricted nor renormalised, and the outcome does not depend on the waiting flags.
\<close>

theorem resolve_merges_all_results:
  assumes "distinct (map fst (result_dict s))" and "2 \<le> length (result_dict s)"
  shows "collect_models (result_dict s) = result_dict s
       \<and> resolve L weights s =
           (case federated_avg L (result_dict s) (Some weights) of
              Inl e \<Rightarrow> Inl e
            | Inr avg_model \<Rightarrow>
                Inr (s\<lparr>sync_dict := AList.update ''model'' avg_model (sync_dict s)\<rparr>))
       \<and> resolve L weights (s\<lparr>waiting_for_sync_dict := waiting\<rparr>) =
           map_sum id (\<lambda>t. t\<lparr>waiting_for_sync_dict := waiting\<rparr>) (resolve L weights s)"
proof -
  have c: "collect_models (result_dict s) = result_dict s"
    using assms(1) by (simp add: collect_models_def dict_of_distinct)
  have n: "length (result_dict s) \<noteq> 1" "length (result_dict s) \<noteq> 0"
    using assms(2) by auto
  have r: "resolve L weights s =
           (case federated_avg L (result_dict s) (Some weights) of
              Inl e \<Rightarrow> Inl e
            | Inr avg_model \<Rightarrow>
                Inr (s\<lparr>sync_dict := AList.update ''model'' avg_model (sync_dict s)\<rparr>))"
    using n by (simp add: resolve_def c)
  have w: "resolve L weights (s\<lparr>waiting_for_sync_dict := waiting\<rparr>) =
           map_sum id (\<lambda>t. t\<lparr>waiting_for_sync_dict := waiting\<rparr>) (resolve L weights s)"
    using n by (simp add: resolve_def split: sum.splits)
  show ?thesis using c r w by simp
qed

theorem resolve_merges_all_results_witness:
  "resolve probe_syft [(''A'', Num (2 / 3)), (''B'', Num (1 / 3))]
     (empty_shared\<lparr>result_dict := [(''A'', Some (Num 2)), (''B'', Some (Num 0))],
                   waiting_for_sync_dict := [(''A'', True)]\<rparr>)
   = Inr (empty_shared\<lparr>result_dict := [(''A'', Some (Num 2)), (''B'', Some (Num 0))],
                   waiting_for_sync_dict := [(''A'', True)],
                   sync_dict := [(''model'', Some (Num (4 / 3)))]\<rparr>)
   \<and> collect_models [(''A'', Some (Num 2)), (''B'', Some (Num 0))]
       = [(''A'', Some (Num 2)), (''B'', Some (Num 0 :: pyfloat))]"
  using resolve_merges_all_results[of
      "empty_shared\<lparr>result_dict := [(''A'', Some (Num 2)), (''B'', Some (Num 0))],
                   waiting_for_sync_dict := [(''A'', True)]\<rparr>"
      probe_syft "[(''A'', Num (2 / 3)), (''B'', Num (1 / 3))]" "[]"]
  by (simp add: empty_shared_def federated_avg_def probe_syft_def getitem_def)

lemma update_not_Nil: "AList.update k v d \<noteq> []"
  by (cases d) auto

lemma resolve_result_dict: "resolve L weights s = Inr s' \<Longrightarrow> result_dict s' = result_dict s"
proof (cases "length (result_dict s) = 1")
  case True
  assume r: "resolve L weights s = Inr s'"
  from True obtain p where "result_dict s = [p]" by (auto simp: length_Suc_conv)
  then show ?thesis using r by (auto simp: resolve_def)
next
  case False
  assume r: "resolve L weights s = Inr s'"
  then show ?thesis using False by (auto simp: resolve_def split: if_splits sum.splits)
qed

lemma worker_keeps_results:
  "result_dict s \<noteq> [] \<Longrightarrow> result_dict (fst (train_on_server_step T a ident L (s, w))) \<noteq> []"
  by (cases "wpc w")
    (auto simp: train_on_server_step_def wfail_def Let_def update_not_Nil
          split: list.splits option.splits sum.splits bool.splits prod.splits if_splits)

lemma synchronizer_keeps_results:
  "result_dict s \<noteq> [] \<Longrightarrow> result_dict (fst (synchronizer_step L weights wi (s, c))) \<noteq> []"
  by (cases "cpc c")
    (auto simp: synchronizer_step_def resolve_result_dict split: sum.splits if_splits)

lemma init_results: "map fst (result_dict (foldl register_worker s ls)) \<noteq> [] \<or> (ls = [] \<and> result_dict s = [])"
proof (induction ls arbitrary: s)
  case Nil
  then show ?case by simp
next
  case (Cons l ls)
  obtain i n where l: "l = (i, n)" by (cases l)
  have "result_dict (register_worker s (i, n)) \<noteq> []"
    by (simp add: register_worker_def update_not_Nil)
  then show ?case using Cons.IH[of "register_worker s l"] l by auto
qed

text \<open>
  Claim C7 does not hold for the rounds that resolve without a submission. Worker B (two
  batches) has finished; worker A (four batches) has gone through its synchronisation
  point at index 2, where the models 2 and 0 were merged to 1 with weights 1/2 each, and
  has finished too. The waiting dictionary is empty, so the wait loop of the
  coordinator ends at once and a round resolves in which no worker waits or submits.
  Aggregation is not skipped: the two entries of \<open>result_dict\<close> are merged again and
  the stored merged model 1 is replaced by 1/2.
\<close>

theorem round_without_submission_counterexample:
  "(let a = \<lparr>sync_every_n_batch = 2, wait_interval = Num (1 / 10), keep_optim_dict = False,
              weighted_averaging = False\<rparr>;
        s0 = train_federated_init [(''A'', 4), (''B'', 2)];
        weights = make_w_dict a (progress_dict s0);
        (s1, wB) = (train_on_server_step probe_trainer a ''B'' 2 ^^ 9)
                     (s0, init_wlocal (Num 0) () [1, 1]);
        (s2, wA) = (train_on_server_step probe_trainer a ''A'' 4 ^^ 9)
                     (s1, init_wlocal (Num 2) () [1, 1, 1, 1]);
        (s3, c) = (synchronizer_step probe_syft weights (wait_interval a) ^^ 5)
                     (s2, \<lparr>cpc = COuter, csleeps = []\<rparr>);
        (s4, wA') = (train_on_server_step probe_trainer a ''A'' 4 ^^ 10) (s3, wA);
        (s5, c') = (synchronizer_step probe_syft weights (wait_interval a) ^^ 3) (s4, c)
    in wpc wB = WDone \<and> wpc wA' = WDone \<and> cpc c = COuter \<and> cpc c' = CRelease
       \<and> csleeps c' = []
       \<and> waiting_for_sync_dict s4 = [] \<and> \<not> stop_sync s4
       \<and> sync_dict s4 = [(''model'', Some (Num 1))]
       \<and> sync_dict s5 = [(''model'', Some (Num (1 / 2)))]
       \<and> sync_dict s5 \<noteq> sync_dict s4)"
  by (simp add: train_federated_init_def register_worker_def empty_shared_def make_w_dict_def
        batch_weights_def total_batches_def np_divide_def train_on_server_step_def init_wlocal_def
        probe_trainer_def sync_point_def wfail_def getitem_def delitem_def np_mean_def sleep_def
        synchronizer_step_def resolve_def collect_models_def dict_of_def federated_avg_def
        probe_syft_def release_all_def eval_nat_numeral Let_def)

text \<open>
  Claim C7 as amended. The resolution pass skips aggregation and leaves the shared state
  as it is when \<open>result_dict\<close> has no entry. \<open>train_federated\<close> gives \<open>result_dict\<close>
  an entry for every worker before any process starts, and no step of a worker or of
  the coordinator empties it; so with at least one worker this branch is never taken,
  and without workers there is no stored merged model. In every other round, also one
  in which no worker is waiting, a pass that does not raise replaces the stored merged
  model: by the single entry of \<open>result_dict\<close>, or by the aggregation of all its
  entries.
\<close>

theorem resolve_skips_only_without_entries:
  "(result_dict s = [] \<longrightarrow> resolve L weights s = Inr s)
   \<and> (result_dict (train_federated_init train_loaders :: 'm shared) = [] \<longleftrightarrow> train_loaders = [])
   \<and> sync_dict (train_federated_init [] :: 'm shared) = []
   \<and> (result_dict s \<noteq> [] \<longrightarrow>
        result_dict (fst (train_on_server_step T a ident n (s, w))) \<noteq> []
      \<and> result_dict (fst (synchronizer_step L weights wi (s, c))) \<noteq> [])
   \<and> (result_dict s = [(k, m)] \<longrightarrow>
        resolve L weights (s\<lparr>waiting_for_sync_dict := wm\<rparr>)
          = Inr (s\<lparr>waiting_for_sync_dict := wm,
                  sync_dict := AList.update ''model'' m (sync_dict s)\<rparr>))
   \<and> (2 \<le> length (result_dict s)
        \<and> federated_avg L (collect_models (result_dict s)) (Some weights) = Inr avg_model \<longrightarrow>
        resolve L weights (s\<lparr>waiting_for_sync_dict := wm\<rparr>)
          = Inr (s\<lparr>waiting_for_sync_dict := wm,
                  sync_dict := AList.update ''model'' avg_model (sync_dict s)\<rparr>))"
proof -
  have 1: "result_dict s = [] \<longrightarrow> resolve L weights s = Inr s"
    by (simp add: resolve_def)
  have 2: "result_dict (train_federated_init train_loaders :: 'm shared) = [] \<longleftrightarrow> train_loaders = []"
    using init_results[of "empty_shared :: 'm shared" train_loaders]
    by (auto simp: train_federated_init_def empty_shared_def)
  have 3: "sync_dict (train_federated_init [] :: 'm shared) = []"
    by (simp add: train_federated_init_def empty_shared_def)
  have 4: "result_dict s \<noteq> [] \<longrightarrow>
        result_dict (fst (train_on_server_step T a ident n (s, w))) \<noteq> []
      \<and> result_dict (fst (synchronizer_step L weights wi (s, c))) \<noteq> []"
    using worker_keeps_results synchronizer_keeps_results by blast
  have 5: "result_dict s = [(k, m)] \<longrightarrow>
        resolve L weights (s\<lparr>waiting_for_sync_dict := wm\<rparr>)
          = Inr (s\<lparr>waiting_for_sync_dict := wm,
                  sync_dict := AList.update ''model'' m (sync_dict s)\<rparr>)"
    by (simp add: resolve_def)
  have 6: "2 \<le> length (result_dict s)
        \<and> federated_avg L (collect_models (result_dict s)) (Some weights) = Inr avg_model \<longrightarrow>
        resolve L weights (s\<lparr>waiting_for_sync_dict := wm\<rparr>)
          = Inr (s\<lparr>waiting_for_sync_dict := wm,
                  sync_dict := AList.update ''model'' avg_model (sync_dict s)\<rparr>)"
    by (auto simp: resolve_def)
  show ?thesis using 1 2 3 4 5 6 by blast
qed

theorem resolve_skips_only_without_entries_witness:
  "resolve probe_syft [] (train_federated_init []) = Inr (train_federated_init [])
   \<and> result_dict (train_federated_init [(''A'', 4), (''B'', 2)] :: pyfloat shared) \<noteq> []
   \<and> resolve probe_syft [(''A'', Num (1 / 2)), (''B'', Num (1 / 2))]
        \<lparr>result_dict = [(''A'', Some (Num 1)), (''B'', Some (Num 0))],
         waiting_for_sync_dict = [],
         sync_dict = [(''model'', Some (Num 1))],
         progress_dict = [(''A'', (4, 4)), (''B'', (2, 2))],
         loss_dict = [(''A'', [(Batch 2, Num 1), (Final, Num 1)]), (''B'', [(Final, Num 1)])],
         stop_sync = False, sync_completed = True\<rparr>
     = Inr \<lparr>result_dict = [(''A'', Some (Num 1)), (''B'', Some (Num 0))],
         waiting_for_sync_dict = [],
         sync_dict = [(''model'', Some (Num (1 / 2)))],
         progress_dict = [(''A'', (4, 4)), (''B'', (2, 2))],
         loss_dict = [(''A'', [(Batch 2, Num 1), (Final, Num 1)]), (''B'', [(Final, Num 1)])],
         stop_sync = False, sync_completed = True\<rparr>"
proof -
  let ?weights = "[(''A'', Num (1 / 2)), (''B'', Num (1 / 2))]"
  let ?sr = "\<lparr>result_dict = [(''A'', Some (Num 1)), (''B'', Some (Num 0))],
         waiting_for_sync_dict = [],
         sync_dict = [(''model'', Some (Num 1))],
         progress_dict = [(''A'', (4, 4)), (''B'', (2, 2))],
         loss_dict = [(''A'', [(Batch 2, Num 1), (Final, Num 1)]), (''B'', [(Final, Num 1)])],
         stop_sync = False, sync_completed = True\<rparr> :: pyfloat shared"
  have e: "result_dict (train_federated_init [] :: pyfloat shared) = []"
    by (simp add: train_federated_init_def empty_shared_def)
  have f: "federated_avg probe_syft (collect_models (result_dict ?sr)) (Some ?weights)
             = Inr (Some (Num (1 / 2)))"
    by (simp add: collect_models_def dict_of_def federated_avg_def probe_syft_def getitem_def)
  have g: "2 \<le> length (result_dict ?sr)" by simp
  note empty = resolve_skips_only_without_entries[where s = "train_federated_init [] :: pyfloat shared"
            and L = probe_syft and weights = "[]" and train_loaders = "[(''A'', 4), (''B'', 2)]"
            and avg_model = None and wm = "[]"
            and T = probe_trainer
            and a = "\<lparr>sync_every_n_batch = 2, wait_interval = Num (1 / 10), keep_optim_dict = False,
                     weighted_averaging = False\<rparr>"
            and ident = "''A''" and n = 4 and w = "init_wlocal (Num 0) () []"
            and wi = "Num (1 / 10)" and c = "\<lparr>cpc = COuter, csleeps = []\<rparr>"
            and k = "''A''" and m = None]
  note merged = resolve_skips_only_without_entries[where s = ?sr and L = probe_syft
            and weights = ?weights and avg_model = "Some (Num (1 / 2))" and wm = "[]"
            and train_loaders = "[]"
            and T = probe_trainer
            and a = "\<lparr>sync_every_n_batch = 2, wait_interval = Num (1 / 10), keep_optim_dict = False,
                     weighted_averaging = False\<rparr>"
            and ident = "''A''" and n = 4 and w = "init_wlocal (Num 0) () []"
            and wi = "Num (1 / 10)" and c = "\<lparr>cpc = COuter, csleeps = []\<rparr>"
            and k = "''A''" and m = None]
  have c1: "resolve probe_syft [] (train_federated_init []) = Inr (train_federated_init [])"
    using empty e by blast
  have c2: "result_dict (train_federated_init [(''A'', 4), (''B'', 2)] :: pyfloat shared) \<noteq> []"
    using empty by blast
  have "resolve probe_syft ?weights (?sr\<lparr>waiting_for_sync_dict := []\<rparr>)
          = Inr (?sr\<lparr>waiting_for_sync_dict := [],
                  sync_dict := AList.update ''model'' (Some (Num (1 / 2))) (sync_dict ?sr)\<rparr>)"
    using merged f g by blast
  then have c3: "resolve probe_syft ?weights ?sr
          = Inr (?sr\<lparr>sync_dict := [(''model'', Some (Num (1 / 2)))]\<rparr>)"
    by simp
  show ?thesis using c1 c2 c3 by simp
qed

section \<open>Termination of the coordinator\<close>

lemma resolve_stop_sync: "resolve L weights s = Inr s' \<Longrightarrow> stop_sync s' = stop_sync s"
proof -
  have "stop_sync (foldl (\<lambda>s' m. s'\<lparr>sync_dict := AList.update ''model'' m (sync_dict s')\<rparr>) t ms)
        = stop_sync t" for t :: "'a shared" and ms
    by (induction ms arbitrary: t) simp_all
  then show "resolve L weights s = Inr s' \<Longrightarrow> stop_sync s' = stop_sync s"
    by (auto simp: resolve_def split: if_splits sum.splits)
qed

lemma step_terminal:
  "cterminal (cpc c) \<Longrightarrow> synchronizer_step L weights wi (s, c) = (s, c)"
  by (cases "cpc c") (simp_all add: synchronizer_step_def cterminal_def)

lemma run_terminal:
  "cterminal (cpc c) \<Longrightarrow>
   map (cpc \<circ> snd) (synchronizer_run L weights wi envs (s, c)) = replicate (Suc (length envs)) (cpc c)"
  by (induction envs arbitrary: s) (simp_all add: step_terminal)

lemma run_outer:
  assumes "\<forall>env \<in> set envs. \<forall>t. stop_sync t \<longrightarrow> stop_sync (env t)"
    and "stop_sync s" and "cpc c = COuter" and "length envs \<le> k"
  shows "map (cpc \<circ> snd) (synchronizer_run L weights wi envs (s, c))
       = take (Suc (length envs)) (COuter # replicate k CDone)"
proof (cases envs)
  case Nil
  then show ?thesis using assms by simp
next
  case (Cons env rest)
  have st: "stop_sync (env s)" using assms Cons by simp
  have "synchronizer_step L weights wi (env s, c) = (env s, c\<lparr>cpc := CDone\<rparr>)"
    using st assms(3) by (simp add: synchronizer_step_def)
  then show ?thesis
    using run_terminal[of "c\<lparr>cpc := CDone\<rparr>" L weights wi rest "env s"] assms(3,4) Cons
    by (simp add: cterminal_def min_def)
qed

lemma run_signal:
  assumes "\<forall>env \<in> set envs. \<forall>t. stop_sync t \<longrightarrow> stop_sync (env t)"
    and "stop_sync s" and "cpc c = CSignal" and "length envs \<le> k"
  shows "map (cpc \<circ> snd) (synchronizer_run L weights wi envs (s, c))
       = take (Suc (length envs)) ([CSignal, COuter] @ replicate k CDone)"
proof (cases envs)
  case Nil
  then show ?thesis using assms by simp
next
  case (Cons env rest)
  have st: "stop_sync (env s)" using assms Cons by simp
  have step: "synchronizer_step L weights wi (env s, c)
            = ((env s)\<lparr>sync_completed := True\<rparr>, c\<lparr>cpc := COuter\<rparr>)"
    using assms(3) by (simp add: synchronizer_step_def)
  have "map (cpc \<circ> snd) (synchronizer_run L weights wi rest
          ((env s)\<lparr>sync_completed := True\<rparr>, c\<lparr>cpc := COuter\<rparr>))
        = take (Suc (length rest)) (COuter # replicate k CDone)"
    using assms(1,4) st Cons by (intro run_outer) simp_all
  then show ?thesis using assms(3) Cons step by simp
qed

lemma run_release:
  assumes "\<forall>env \<in> set envs. \<forall>t. stop_sync t \<longrightarrow> stop_sync (env t)"
    and "stop_sync s" and "cpc c = CRelease" and "length envs \<le> k"
  shows "map (cpc \<circ> snd) (synchronizer_run L weights wi envs (s, c))
       = take (Suc (length envs)) ([CRelease, CSignal, COuter] @ replicate k CDone)"
proof (cases envs)
  case Nil
  then show ?thesis using assms by simp
next
  case (Cons env rest)
  have st: "stop_sync (env s)" using assms Cons by simp
  have step: "synchronizer_step L weights wi (env s, c)
            = ((env s)\<lparr>waiting_for_sync_dict := release_all (waiting_for_sync_dict (env s))\<rparr>,
               c\<lparr>cpc := CSignal\<rparr>)"
    using assms(3) by (simp add: synchronizer_step_def)
  have "map (cpc \<circ> snd) (synchronizer_run L weights wi rest
          ((env s)\<lparr>waiting_for_sync_dict := release_all (waiting_for_sync_dict (env s))\<rparr>,
           c\<lparr>cpc := CSignal\<rparr>))
        = take (Suc (length rest)) ([CSignal, COuter] @ replicate k CDone)"
    using assms(1,4) st Cons by (intro run_signal) simp_all
  then show ?thesis using assms(3) Cons step by simp
qed

lemma run_resolve:
  assumes "\<forall>env \<in> set envs. \<forall>t. stop_sync t \<longrightarrow> stop_sync (env t)"
    and "stop_sync s" and "cpc c = CResolve" and "length envs \<le> k"
  shows "map (cpc \<circ> snd) (synchronizer_run L weights wi envs (s, c))
         = take (Suc (length envs)) ([CResolve, CRelease, CSignal, COuter] @ replicate k CDone)
       \<or> (\<exists>e. map (cpc \<circ> snd) (synchronizer_run L weights wi envs (s, c))
         = take (Suc (length envs)) (CResolve # replicate k (CFailed e)))"
proof (cases envs)
  case Nil
  then show ?thesis using assms by simp
next
  case (Cons env rest)
  have st: "stop_sync (env s)" using assms Cons by simp
  show ?thesis
  proof (cases "resolve L weights (env s)")
    case (Inl e)
    then have step: "synchronizer_step L weights wi (env s, c) = (env s, c\<lparr>cpc := CFailed e\<rparr>)"
      using assms(3) by (simp add: synchronizer_step_def)
    have "map (cpc \<circ> snd) (synchronizer_run L weights wi envs (s, c))
         = take (Suc (length envs)) (CResolve # replicate k (CFailed e))"
      using run_terminal[of "c\<lparr>cpc := CFailed e\<rparr>" L weights wi rest "env s"] assms(3,4) Cons step
      by (simp add: cterminal_def min_def)
    then show ?thesis by blast
  next
    case (Inr s')
    then have step: "synchronizer_step L weights wi (env s, c) = (s', c\<lparr>cpc := CRelease\<rparr>)"
      using assms(3) by (simp add: synchronizer_step_def)
    have st': "stop_sync s'" using resolve_stop_sync[OF Inr] st by simp
    have "map (cpc \<circ> snd) (synchronizer_run L weights wi rest (s', c\<lparr>cpc := CRelease\<rparr>))
        = take (Suc (length rest)) ([CRelease, CSignal, COuter] @ replicate k CDone)"
      using assms(1,4) st' Cons by (intro run_release) simp_all
    then show ?thesis using assms(3) Cons step by simp
  qed
qed

lemma run_inner:
  assumes "\<forall>env \<in> set envs. \<forall>t. stop_sync t \<longrightarrow> stop_sync (env t)"
    and "stop_sync s" and "cpc c = CInner" and "length envs \<le> k"
  shows "map (cpc \<circ> snd) (synchronizer_run L weights wi envs (s, c))
         = take (Suc (length envs))
             ([CInner, CResolve, CRelease, CSignal, COuter] @ replicate k CDone)
       \<or> (\<exists>e. map (cpc \<circ> snd) (synchronizer_run L weights wi envs (s, c))
         = take (Suc (length envs)) ([CInner, CResolve] @ replicate k (CFailed e)))"
proof (cases envs)
  case Nil
  then show ?thesis using assms by simp
next
  case (Cons env rest)
  have st: "stop_sync (env s)" using assms Cons by simp
  have step: "synchronizer_step L weights wi (env s, c) = (env s, c\<lparr>cpc := CResolve\<rparr>)"
    using assms(3) st by (simp add: synchronizer_step_def)
  have "map (cpc \<circ> snd) (synchronizer_run L weights wi rest (env s, c\<lparr>cpc := CResolve\<rparr>))
         = take (Suc (length rest)) ([CResolve, CRelease, CSignal, COuter] @ replicate k CDone)
       \<or> (\<exists>e. map (cpc \<circ> snd) (synchronizer_run L weights wi rest (env s, c\<lparr>cpc := CResolve\<rparr>))
         = take (Suc (length rest)) (CResolve # replicate k (CFailed e)))"
    using assms(1,4) st Cons by (intro run_resolve) simp_all
  then show ?thesis using assms(3) Cons step by auto
qed

lemma take_path:
  "P \<noteq> [] \<Longrightarrow> length P \<le> Suc n \<Longrightarrow>
   take (Suc n) (P @ replicate n x) = P @ replicate (Suc n - length P) x"
  by (cases P) (simp_all add: min_def)

lemma count_list_replicate: "count_list (replicate n x) y = (if x = y then n else 0)"
  by (induction n) auto

lemma trace_shape:
  assumes "pcs = take (Suc n) (P @ replicate n x)" and "length P \<le> 5" and "5 \<le> n"
    and "cterminal x" and "count_list P CResolve \<le> 1" and "P \<noteq> []"
  shows "cterminal (last pcs) \<and> count_list pcs CResolve \<le> 1"
proof -
  have p: "pcs = P @ replicate (Suc n - length P) x"
    using assms(1,2,3,6) take_path[of P n x] by simp
  have pos: "0 < Suc n - length P" using assms(2,3) by simp
  have ne: "x \<noteq> CResolve" using assms(4) by (auto simp: cterminal_def)
  have "last pcs = x" using p pos by simp
  moreover have "count_list pcs CResolve = count_list P CResolve"
    using p ne by (simp add: count_list_replicate)
  ultimately show ?thesis using assms(4,5) by simp
qed

lemma pcs_after_stop:
  assumes stable: "\<forall>env \<in> set envs. \<forall>t. stop_sync t \<longrightarrow> stop_sync (env t)"
    and stop: "stop_sync s" and len: "5 \<le> length envs"
  shows "cterminal (last (map (cpc \<circ> snd) (synchronizer_run L weights wi envs (s, c))))
       \<and> count_list (map (cpc \<circ> snd) (synchronizer_run L weights wi envs (s, c))) CResolve \<le> 1"
proof -
  let ?pcs = "map (cpc \<circ> snd) (synchronizer_run L weights wi envs (s, c))"
  let ?n = "length envs"
  show ?thesis
  proof (cases "cpc c")
    case COuter
    from run_outer[OF stable stop COuter order_refl, of L weights wi]
    have "?pcs = take (Suc ?n) ([COuter] @ replicate ?n CDone)" by simp
    then show ?thesis using len
      by (intro trace_shape[where P = "[COuter]" and x = CDone]) (simp_all add: cterminal_def)
  next
    case CInner
    from run_inner[OF stable stop CInner order_refl, of L weights wi]
    consider "?pcs = take (Suc ?n) ([CInner, CResolve, CRelease, CSignal, COuter] @ replicate ?n CDone)"
      | e where "?pcs = take (Suc ?n) ([CInner, CResolve] @ replicate ?n (CFailed e))"
      by blast
    then show ?thesis
    proof cases
      case 1
      then show ?thesis using len
        by (intro trace_shape[where P = "[CInner, CResolve, CRelease, CSignal, COuter]" and x = CDone])
          (simp_all add: cterminal_def)
    next
      case 2
      then show ?thesis using len
        by (intro trace_shape[where P = "[CInner, CResolve]" and x = "CFailed e"])
          (simp_all add: cterminal_def)
    qed
  next
    case CResolve
    from run_resolve[OF stable stop CResolve order_refl, of L weights wi]
    consider "?pcs = take (Suc ?n) ([CResolve, CRelease, CSignal, COuter] @ replicate ?n CDone)"
      | e where "?pcs = take (Suc ?n) (CResolve # replicate ?n (CFailed e))"
      by blast
    then show ?thesis
    proof cases
      case 1
      then show ?thesis using len
        by (intro trace_shape[where P = "[CResolve, CRelease, CSignal, COuter]" and x = CDone])
          (simp_all add: cterminal_def)
    next
      case 2
      then show ?thesis using len
        by (intro trace_shape[where P = "[CResolve]" and x = "CFailed e"])
          (simp_all add: cterminal_def)
    qed
  next
    case CRelease
    from run_release[OF stable stop CRelease order_refl, of L weights wi]
    have "?pcs = take (Suc ?n) ([CRelease, CSignal, COuter] @ replicate ?n CDone)" .
    then show ?thesis using len
      by (intro trace_shape[where P = "[CRelease, CSignal, COuter]" and x = CDone])
        (simp_all add: cterminal_def)
  next
    case CSignal
    from run_signal[OF stable stop CSignal order_refl, of L weights wi]
    have "?pcs = take (Suc ?n) ([CSignal, COuter] @ replicate ?n CDone)" .
    then show ?thesis using len
      by (intro trace_shape[where P = "[CSignal, COuter]" and x = CDone])
        (simp_all add: cterminal_def)
  next
    case CDone
    then have "?pcs = replicate (Suc ?n) CDone"
      using run_terminal[of c L weights wi envs s] by (simp add: cterminal_def)
    then show ?thesis by (simp add: cterminal_def count_list_replicate)
  next
    case (CFailed e)
    then have "?pcs = replicate (Suc ?n) (CFailed e)"
      using run_terminal[of c L weights wi envs s] by (simp add: cterminal_def)
    then show ?thesis by (simp add: cterminal_def count_list_replicate)
  qed
qed

lemma run_length: "length (synchronizer_run L weights wi envs cfg) = Suc (length envs)"
  by (induction envs arbitrary: cfg) simp_all

lemma run_head: "take 1 (synchronizer_run L weights wi envs cfg) = [cfg]"
  by (cases envs) simp_all

lemma map_other_keys:
  "k \<notin> fst ` set d \<Longrightarrow> map (\<lambda>(k', v'). (k', if k' = k then v else v')) d = d"
  by (induction d) auto

lemma update_present:
  "distinct (map fst d) \<Longrightarrow> k \<in> fst ` set d \<Longrightarrow>
   AList.update k v d = map (\<lambda>(k', v'). (k', if k' = k then v else v')) d"
proof (induction d)
  case Nil
  then show ?case by simp
next
  case (Cons p d)
  obtain a b where p: "p = (a, b)" by (cases p)
  show ?case
  proof (cases "a = k")
    case True
    then have "k \<notin> fst ` set d" using Cons.prems(1) p by auto
    then show ?thesis using True p by (simp add: map_other_keys)
  next
    case False
    then have "k \<in> fst ` set d" using Cons.prems(2) p by auto
    then show ?thesis using False p Cons by simp
  qed
qed

lemma foldl_release:
  "distinct (map fst d) \<Longrightarrow> set ks \<subseteq> fst ` set d \<Longrightarrow>
   foldl (\<lambda>d k. AList.update k False d) d ks
     = map (\<lambda>(k, v). (k, if k \<in> set ks then False else v)) d"
proof (induction ks arbitrary: d)
  case Nil
  then show ?case by simp
next
  case (Cons k ks)
  let ?d = "map (\<lambda>(k', v'). (k', if k' = k then False else v')) d"
  have u: "AList.update k False d = ?d"
    using Cons.prems by (intro update_present) auto
  have keys: "map fst ?d = map fst d" by (induction d) auto
  have "foldl (\<lambda>d k. AList.update k False d) ?d ks
      = map (\<lambda>(k, v). (k, if k \<in> set ks then False else v)) ?d"
  proof (rule Cons.IH)
    show "distinct (map fst ?d)" unfolding keys by (rule Cons.prems(1))
    have "fst ` set ?d = fst ` set d" using keys by (metis list.set_map)
    then show "set ks \<subseteq> fst ` set ?d" using Cons.prems(2) by simp
  qed
  also have "\<dots> = map (\<lambda>(k', v). (k', if k' \<in> set (k # ks) then False else v)) d"
    by (induction d) (auto split: if_splits)
  finally show ?case using u by simp
qed

lemma release_all_map:
  "distinct (map fst wm) \<Longrightarrow> release_all wm = map (\<lambda>(k, v). (k, False)) wm"
proof -
  assume d: "distinct (map fst wm)"
  have "release_all wm = map (\<lambda>(k, v). (k, if k \<in> set (map fst wm) then False else v)) wm"
    unfolding release_all_def using d by (intro foldl_release) auto
  also have "\<dots> = map (\<lambda>(k, v). (k, False)) wm"
    by (rule map_cong[OF refl]) (force simp: image_iff)
  finally show ?thesis .
qed

lemma resolve_ignores_waiting:
  "resolve L weights (t\<lparr>waiting_for_sync_dict := wm\<rparr>)
     = map_sum id (\<lambda>u. u\<lparr>waiting_for_sync_dict := wm\<rparr>) (resolve L weights t)"
proof (cases "length (result_dict t) = 1")
  case True
  then obtain p where "result_dict t = [p]" by (auto simp: length_Suc_conv)
  then show ?thesis by (simp add: resolve_def)
next
  case False
  then show ?thesis by (simp add: resolve_def split: sum.splits)
qed

text \<open>
  Claim C2 does not hold as stated. Worker B (two batches) has finished; worker A (four
  batches) has gone through its synchronisation point at index 2, where the models 2 and
  0 were merged to 1 with weights 1/2 each, and has finished too. No id is left in the
  waiting dictionary. The orchestrator sets the stop flag while the coordinator is in
  its wait loop. The coordinator leaves the loop, does one more resolution pass and
  ends, but the pass does not go by the ids still waiting (there are none): it merges
  the two entries of \<open>result_dict\<close> again and replaces the merged model 1 by 1/2.
\<close>

theorem final_pass_waiting_ids_counterexample:
  "(let a = \<lparr>sync_every_n_batch = 2, wait_interval = Num (1 / 10), keep_optim_dict = False,
              weighted_averaging = False\<rparr>;
        s0 = train_federated_init [(''A'', 4), (''B'', 2)];
        weights = make_w_dict a (progress_dict s0);
        (s1, wB) = (train_on_server_step probe_trainer a ''B'' 2 ^^ 9)
                     (s0, init_wlocal (Num 0) () [1, 1]);
        (s2, wA) = (train_on_server_step probe_trainer a ''A'' 4 ^^ 9)
                     (s1, init_wlocal (Num 2) () [1, 1, 1, 1]);
        (s3, c) = (synchronizer_step probe_syft weights (wait_interval a) ^^ 5)
                     (s2, \<lparr>cpc = COuter, csleeps = []\<rparr>);
        (s4, wA') = (train_on_server_step probe_trainer a ''A'' 4 ^^ 10) (s3, wA);
        (s5, c') = synchronizer_step probe_syft weights (wait_interval a) (s4, c);
        trace = synchronizer_run probe_syft weights (wait_interval a)
                  [\<lambda>t. t, \<lambda>t. t, \<lambda>t. t, \<lambda>t. t, \<lambda>t. t] (s5\<lparr>stop_sync := True\<rparr>, c')
    in wpc wB = WDone \<and> wpc wA' = WDone \<and> cpc c' = CInner
       \<and> s5 = \<lparr>result_dict = [(''A'', Some (Num 1)), (''B'', Some (Num 0))],
                 waiting_for_sync_dict = [],
                 sync_dict = [(''model'', Some (Num 1))],
                 progress_dict = [(''A'', (4, 4)), (''B'', (2, 2))],
                 loss_dict = [(''A'', [(Batch 2, Num 1), (Final, Num 1)]), (''B'', [(Final, Num 1)])],
                 stop_sync = False, sync_completed = True\<rparr>
       \<and> map (cpc \<circ> snd) trace = [CInner, CResolve, CRelease, CSignal, COuter, CDone]
       \<and> sync_dict (fst (last trace)) = [(''model'', Some (Num (1 / 2)))])"
  by (simp add: train_federated_init_def register_worker_def empty_shared_def make_w_dict_def
        batch_weights_def total_batches_def np_divide_def train_on_server_step_def init_wlocal_def
        probe_trainer_def sync_point_def wfail_def getitem_def delitem_def np_mean_def sleep_def
        synchronizer_step_def resolve_def collect_models_def dict_of_def federated_avg_def
        probe_syft_def release_all_def eval_nat_numeral Let_def)

text \<open>
  Claim C2 as amended. Let the stop flag be true and stay true, whatever else the other
  processes do to the shared state between the steps of the coordinator (\<open>e1\<close>, ...,
  \<open>e5\<close> and the functions of \<open>rest\<close>). From any point of its code the coordinator
  reaches its end within five of its steps, having started at most one resolution pass.
  If it is in its wait loop, it leaves the loop at once and does exactly one more
  resolution pass; when the pass raises, the coordinator ends with that error, and
  otherwise it stores the result of the pass, sets every waiting flag to false, sets
  \<open>sync_completed\<close>, finds the outer loop condition false and ends. The pass takes the
  models from \<open>result_dict\<close> and not from the ids still waiting: its result is the same
  for every waiting dictionary, and with two or more entries it is the aggregation of all
  entries of \<open>result_dict\<close> with the configured weights.
\<close>

theorem synchronizer_final_pass:
  assumes stable: "\<forall>env \<in> set envs. \<forall>t. stop_sync t \<longrightarrow> stop_sync (env t)"
    and stop: "stop_sync s"
    and envs: "envs = e1 # e2 # e3 # e4 # e5 # rest"
    and tr: "trace = synchronizer_run L weights wi envs (s, c)"
    and pcs: "pcs = map (cpc \<circ> snd) trace"
    and s4: "s4 = (e3 s3)\<lparr>waiting_for_sync_dict := release_all (waiting_for_sync_dict (e3 s3))\<rparr>"
    and s5: "s5 = (e4 s4)\<lparr>sync_completed := True\<rparr>"
  shows "cterminal (last pcs) \<and> count_list pcs CResolve \<le> 1
       \<and> (cpc c = CInner \<and> resolve L weights (e2 (e1 s)) = Inl e \<longrightarrow>
            pcs = [CInner, CResolve] @ replicate (length envs - 1) (CFailed e))
       \<and> (cpc c = CInner \<and> resolve L weights (e2 (e1 s)) = Inr s3 \<longrightarrow>
            pcs = [CInner, CResolve, CRelease, CSignal, COuter] @ replicate (length envs - 4) CDone
          \<and> take 6 trace =
               [(s, c), (e1 s, c\<lparr>cpc := CResolve\<rparr>), (s3, c\<lparr>cpc := CRelease\<rparr>),
                (s4, c\<lparr>cpc := CSignal\<rparr>), (s5, c\<lparr>cpc := COuter\<rparr>),
                (e5 s5, c\<lparr>cpc := CDone\<rparr>)])
       \<and> (\<forall>t wm. resolve L weights (t\<lparr>waiting_for_sync_dict := wm\<rparr>)
                  = map_sum id (\<lambda>u. u\<lparr>waiting_for_sync_dict := wm\<rparr>) (resolve L weights t))
       \<and> (\<forall>t. distinct (map fst (result_dict t)) \<and> 2 \<le> length (result_dict t) \<longrightarrow>
              resolve L weights t =
                (case federated_avg L (result_dict t) (Some weights) of
                   Inl e \<Rightarrow> Inl e
                 | Inr avg_model \<Rightarrow>
                     Inr (t\<lparr>sync_dict := AList.update ''model'' avg_model (sync_dict t)\<rparr>)))
       \<and> (\<forall>wm. distinct (map fst wm) \<longrightarrow> release_all wm = map (\<lambda>(k, v). (k, False)) wm)"
proof -
  have len: "5 \<le> length envs" using envs by simp
  have general: "cterminal (last pcs) \<and> count_list pcs CResolve \<le> 1"
    unfolding pcs tr by (rule pcs_after_stop[OF stable stop len])
  have st1: "stop_sync (e1 s)" using stable stop envs by simp
  have st2: "stop_sync (e2 (e1 s))" using stable st1 envs by simp
  have step1: "synchronizer_step L weights wi (e1 s, c) = (e1 s, c\<lparr>cpc := CResolve\<rparr>)"
    if "cpc c = CInner"
    using that st1 by (simp add: synchronizer_step_def)
  have failed: "pcs = [CInner, CResolve] @ replicate (length envs - 1) (CFailed e)"
    if c: "cpc c = CInner" and r: "resolve L weights (e2 (e1 s)) = Inl e"
  proof -
    have step2: "synchronizer_step L weights wi (e2 (e1 s), c\<lparr>cpc := CResolve\<rparr>)
               = (e2 (e1 s), c\<lparr>cpc := CFailed e\<rparr>)"
      using r by (simp add: synchronizer_step_def)
    have "map (cpc \<circ> snd) (synchronizer_run L weights wi (e3 # e4 # e5 # rest)
            (e2 (e1 s), c\<lparr>cpc := CFailed e\<rparr>))
          = replicate (Suc (length (e3 # e4 # e5 # rest))) (CFailed e)"
      using run_terminal[of "c\<lparr>cpc := CFailed e\<rparr>" L weights wi "e3 # e4 # e5 # rest" "e2 (e1 s)"]
      by (simp add: cterminal_def)
    then show ?thesis
      unfolding pcs tr envs using c step1[OF c] step2 by simp
  qed
  have passed: "pcs = [CInner, CResolve, CRelease, CSignal, COuter] @ replicate (length envs - 4) CDone
          \<and> take 6 trace =
               [(s, c), (e1 s, c\<lparr>cpc := CResolve\<rparr>), (s3, c\<lparr>cpc := CRelease\<rparr>),
                (s4, c\<lparr>cpc := CSignal\<rparr>), (s5, c\<lparr>cpc := COuter\<rparr>),
                (e5 s5, c\<lparr>cpc := CDone\<rparr>)]"
    if c: "cpc c = CInner" and r: "resolve L weights (e2 (e1 s)) = Inr s3"
  proof -
    have st3: "stop_sync s3" using resolve_stop_sync[OF r] st2 by simp
    have st3': "stop_sync (e3 s3)" using stable st3 envs by simp
    have st4: "stop_sync s4" using st3' s4 by simp
    have st4': "stop_sync (e4 s4)" using stable st4 envs by simp
    have st5: "stop_sync s5" using st4' s5 by simp
    have st5': "stop_sync (e5 s5)" using stable st5 envs by simp
    have step2: "synchronizer_step L weights wi (e2 (e1 s), c\<lparr>cpc := CResolve\<rparr>)
               = (s3, c\<lparr>cpc := CRelease\<rparr>)"
      using r by (simp add: synchronizer_step_def)
    have step3: "synchronizer_step L weights wi (e3 s3, c\<lparr>cpc := CRelease\<rparr>)
               = (s4, c\<lparr>cpc := CSignal\<rparr>)"
      using s4 by (simp add: synchronizer_step_def)
    have step4: "synchronizer_step L weights wi (e4 s4, c\<lparr>cpc := CSignal\<rparr>)
               = (s5, c\<lparr>cpc := COuter\<rparr>)"
      using s5 by (simp add: synchronizer_step_def)
    have step5: "synchronizer_step L weights wi (e5 s5, c\<lparr>cpc := COuter\<rparr>)
               = (e5 s5, c\<lparr>cpc := CDone\<rparr>)"
      using st5' by (simp add: synchronizer_step_def)
    have unfolded: "trace = [(s, c), (e1 s, c\<lparr>cpc := CResolve\<rparr>), (s3, c\<lparr>cpc := CRelease\<rparr>),
                (s4, c\<lparr>cpc := CSignal\<rparr>), (s5, c\<lparr>cpc := COuter\<rparr>)]
              @ synchronizer_run L weights wi rest (e5 s5, c\<lparr>cpc := CDone\<rparr>)"
      unfolding tr envs using step1[OF c] step2 step3 step4 step5 by simp
    have tail: "map (cpc \<circ> snd) (synchronizer_run L weights wi rest (e5 s5, c\<lparr>cpc := CDone\<rparr>))
          = replicate (Suc (length rest)) CDone"
      using run_terminal[of "c\<lparr>cpc := CDone\<rparr>" L weights wi rest "e5 s5"]
      by (simp add: cterminal_def)
    have p: "pcs = [CInner, CResolve, CRelease, CSignal, COuter] @ replicate (length envs - 4) CDone"
      unfolding pcs unfolded using tail c envs by simp
    have t: "take 6 trace =
               [(s, c), (e1 s, c\<lparr>cpc := CResolve\<rparr>), (s3, c\<lparr>cpc := CRelease\<rparr>),
                (s4, c\<lparr>cpc := CSignal\<rparr>), (s5, c\<lparr>cpc := COuter\<rparr>),
                (e5 s5, c\<lparr>cpc := CDone\<rparr>)]"
      unfolding unfolded
      using run_head[of L weights wi rest "(e5 s5, c\<lparr>cpc := CDone\<rparr>)"] by simp
    show ?thesis using p t by simp
  qed
  have all_entries: "resolve L weights t =
                (case federated_avg L (result_dict t) (Some weights) of
                   Inl e \<Rightarrow> Inl e
                 | Inr avg_model \<Rightarrow>
                     Inr (t\<lparr>sync_dict := AList.update ''model'' avg_model (sync_dict t)\<rparr>))"
    if "distinct (map fst (result_dict t)) \<and> 2 \<le> length (result_dict t)" for t :: "'a shared"
  proof -
    have c: "collect_models (result_dict t) = result_dict t"
      using that by (simp add: collect_models_def dict_of_distinct)
    have n: "length (result_dict t) \<noteq> 1" "length (result_dict t) \<noteq> 0"
      using that by auto
    show ?thesis using n by (simp add: resolve_def c)
  qed
  show ?thesis
  proof (intro conjI impI allI)
    show "cterminal (last pcs)" using general by simp
    show "count_list pcs CResolve \<le> 1" using general by simp
  next
    assume "cpc c = CInner \<and> resolve L weights (e2 (e1 s)) = Inl e"
    then show "pcs = [CInner, CResolve] @ replicate (length envs - 1) (CFailed e)"
      using failed by blast
  next
    assume a: "cpc c = CInner \<and> resolve L weights (e2 (e1 s)) = Inr s3"
    show "pcs = [CInner, CResolve, CRelease, CSignal, COuter] @ replicate (length envs - 4) CDone"
      using passed a by blast
    show "take 6 trace =
               [(s, c), (e1 s, c\<lparr>cpc := CResolve\<rparr>), (s3, c\<lparr>cpc := CRelease\<rparr>),
                (s4, c\<lparr>cpc := CSignal\<rparr>), (s5, c\<lparr>cpc := COuter\<rparr>),
                (e5 s5, c\<lparr>cpc := CDone\<rparr>)]"
      using passed a by blast
  next
    fix t :: "'a shared" and wm
    show "resolve L weights (t\<lparr>waiting_for_sync_dict := wm\<rparr>)
                  = map_sum id (\<lambda>u. u\<lparr>waiting_for_sync_dict := wm\<rparr>) (resolve L weights t)"
      by (rule resolve_ignores_waiting)
  next
    fix t :: "'a shared"
    assume "distinct (map fst (result_dict t)) \<and> 2 \<le> length (result_dict t)"
    then show "resolve L weights t =
                (case federated_avg L (result_dict t) (Some weights) of
                   Inl e \<Rightarrow> Inl e
                 | Inr avg_model \<Rightarrow>
                     Inr (t\<lparr>sync_dict := AList.update ''model'' avg_model (sync_dict t)\<rparr>))"
      by (rule all_entries)
  next
    fix wm :: "(wid, bool) dict"
    assume "distinct (map fst wm)"
    then show "release_all wm = map (\<lambda>(k, v). (k, False)) wm" by (rule release_all_map)
  qed
qed

theorem synchronizer_final_pass_witness:
  "synchronizer_run probe_syft [(''A'', Num (1 / 2)), (''B'', Num (1 / 2))] (Num (1 / 10))
        [\<lambda>t. t, \<lambda>t. t, \<lambda>t. t, \<lambda>t. t, \<lambda>t. t]
        (\<lparr>result_dict = [(''A'', Some (Num 1)), (''B'', Some (Num 0))],
          waiting_for_sync_dict = [],
          sync_dict = [(''model'', Some (Num 1))],
          progress_dict = [(''A'', (4, 4)), (''B'', (2, 2))],
          loss_dict = [(''A'', [(Batch 2, Num 1), (Final, Num 1)]), (''B'', [(Final, Num 1)])],
          stop_sync = True, sync_completed = True\<rparr>,
         \<lparr>cpc = CInner, csleeps = []\<rparr>)
   = [(\<lparr>result_dict = [(''A'', Some (Num 1)), (''B'', Some (Num 0))],
          waiting_for_sync_dict = [],
          sync_dict = [(''model'', Some (Num 1))],
          progress_dict = [(''A'', (4, 4)), (''B'', (2, 2))],
          loss_dict = [(''A'', [(Batch 2, Num 1), (Final, Num 1)]), (''B'', [(Final, Num 1)])],
          stop_sync = True, sync_completed = True\<rparr>,
         \<lparr>cpc = CInner, csleeps = []\<rparr>),
      (\<lparr>result_dict = [(''A'', Some (Num 1)), (''B'', Some (Num 0))],
          waiting_for_sync_dict = [],
          sync_dict = [(''model'', Some (Num 1))],
          progress_dict = [(''A'', (4, 4)), (''B'', (2, 2))],
          loss_dict = [(''A'', [(Batch 2, Num 1), (Final, Num 1)]), (''B'', [(Final, Num 1)])],
          stop_sync = True, sync_completed = True\<rparr>,
         \<lparr>cpc = CResolve, csleeps = []\<rparr>),
      (\<lparr>result_dict = [(''A'', Some (Num 1)), (''B'', Some (Num 0))],
          waiting_for_sync_dict = [],
          sync_dict = [(''model'', Some (Num (1 / 2)))],
          progress_dict = [(''A'', (4, 4)), (''B'', (2, 2))],
          loss_dict = [(''A'', [(Batch 2, Num 1), (Final, Num 1)]), (''B'', [(Final, Num 1)])],
          stop_sync = True, sync_completed = True\<rparr>,
         \<lparr>cpc = CRelease, csleeps = []\<rparr>),
      (\<lparr>result_dict = [(''A'', Some (Num 1)), (''B'', Some (Num 0))],
          waiting_for_sync_dict = [],
          sync_dict = [(''model'', Some (Num (1 / 2)))],
          progress_dict = [(''A'', (4, 4)), (''B'', (2, 2))],
          loss_dict = [(''A'', [(Batch 2, Num 1), (Final, Num 1)]), (''B'', [(Final, Num 1)])],
          stop_sync = True, sync_completed = True\<rparr>,
         \<lparr>cpc = CSignal, csleeps = []\<rparr>),
      (\<lparr>result_dict = [(''A'', Some (Num 1)), (''B'', Some (Num 0))],
          waiting_for_sync_dict = [],
          sync_dict = [(''model'', Some (Num (1 / 2)))],
          progress_dict = [(''A'', (4, 4)), (''B'', (2, 2))],
          loss_dict = [(''A'', [(Batch 2, Num 1), (Final, Num 1)]), (''B'', [(Final, Num 1)])],
          stop_sync = True, sync_completed = True\<rparr>,
         \<lparr>cpc = COuter, csleeps = []\<rparr>),
      (\<lparr>result_dict = [(''A'', Some (Num 1)), (''B'', Some (Num 0))],
          waiting_for_sync_dict = [],
          sync_dict = [(''model'', Some (Num (1 / 2)))],
          progress_dict = [(''A'', (4, 4)), (''B'', (2, 2))],
          loss_dict = [(''A'', [(Batch 2, Num 1), (Final, Num 1)]), (''B'', [(Final, Num 1)])],
          stop_sync = True, sync_completed = True\<rparr>,
         \<lparr>cpc = CDone, csleeps = []\<rparr>)]"
proof -
  let ?envs = "[\<lambda>t. t, \<lambda>t. t, \<lambda>t. t, \<lambda>t. t, \<lambda>t. t] :: (pyfloat shared \<Rightarrow> pyfloat shared) list"
  let ?weights = "[(''A'', Num (1 / 2)), (''B'', Num (1 / 2))]"
  let ?si = "\<lparr>result_dict = [(''A'', Some (Num 1)), (''B'', Some (Num 0))],
          waiting_for_sync_dict = [],
          sync_dict = [(''model'', Some (Num 1))],
          progress_dict = [(''A'', (4, 4)), (''B'', (2, 2))],
          loss_dict = [(''A'', [(Batch 2, Num 1), (Final, Num 1)]), (''B'', [(Final, Num 1)])],
          stop_sync = True, sync_completed = True\<rparr> :: pyfloat shared"
  let ?sr = "?si\<lparr>sync_dict := [(''model'', Some (Num (1 / 2)))]\<rparr>"
  let ?ci = "\<lparr>cpc = CInner, csleeps = []\<rparr>"
  let ?trace = "synchronizer_run probe_syft ?weights (Num (1 / 10)) ?envs (?si, ?ci)"
  have h1: "\<forall>env \<in> set ?envs. \<forall>t. stop_sync t \<longrightarrow> stop_sync (env t)" by simp
  have h2: "stop_sync ?si" by simp
  have r: "resolve probe_syft ?weights ?si = Inr ?sr"
    by (simp add: resolve_def collect_models_def dict_of_def federated_avg_def probe_syft_def
          getitem_def)
  have six: "take 6 ?trace = ?trace" by (simp add: run_length del: synchronizer_run.simps)
  have "take 6 ?trace
      = [(?si, ?ci), (?si, ?ci\<lparr>cpc := CResolve\<rparr>), (?sr, ?ci\<lparr>cpc := CRelease\<rparr>),
         (?sr, ?ci\<lparr>cpc := CSignal\<rparr>), (?sr, ?ci\<lparr>cpc := COuter\<rparr>),
         (?sr, ?ci\<lparr>cpc := CDone\<rparr>)]"
    using synchronizer_final_pass[OF h1 h2 refl refl refl refl refl,
            where L = probe_syft and weights = ?weights and wi = "Num (1 / 10)" and c = ?ci
              and ?s3.0 = ?sr] r
    by (simp add: release_all_def del: synchronizer_run.simps)
  then show ?thesis by (simp add: six del: synchronizer_run.simps)
qed

section \<open>The poll interval of the coordinator\<close>

text \<open>
  Claim C8, evaluated on the code. The coordinator is given a poll interval of 0.5
  seconds and finds a worker that is not waiting: its wait loop sleeps 0.1 seconds, the
  literal of line 583, and this for every value of the interval. A worker waiting for
  the end of the round with the same configuration sleeps the configured 0.5 seconds
  (line 688).
\<close>

theorem synchronizer_sleep_ignores_wait_interval:
  "csleeps (snd (synchronizer_step probe_syft [(''A'', Num 1)] (Num (1 / 2))
      (empty_shared\<lparr>waiting_for_sync_dict := [(''A'', False)]\<rparr>, \<lparr>cpc = CInner, csleeps = []\<rparr>)))
     = [1 / 10]
   \<and> (\<forall>wi. csleeps (snd (synchronizer_step probe_syft [(''A'', Num 1)] wi
      (empty_shared\<lparr>waiting_for_sync_dict := [(''A'', False)]\<rparr>, \<lparr>cpc = CInner, csleeps = []\<rparr>)))
     = [1 / 10])
   \<and> wsleeps (snd (train_on_server_step probe_trainer
        \<lparr>sync_every_n_batch = 10, wait_interval = Num (1 / 2), keep_optim_dict = False,
         weighted_averaging = False\<rparr> ''A'' 20
        (empty_shared, (init_wlocal (Num 0) () [])\<lparr>wpc := WWait\<rparr>)))
     = [1 / 2]"
  by (simp add: synchronizer_step_def empty_shared_def train_on_server_step_def init_wlocal_def
        sleep_def)

section \<open>The worker's synchronisation point and completion\<close>

lemma wlocal_inv_init: "wlocal_inv (init_wlocal m opt train_loader)"
  by (simp add: wlocal_inv_def init_wlocal_def next_idx_def)

lemma wlocal_inv_step:
  "wlocal_inv w \<Longrightarrow> wlocal_inv (snd (train_on_server_step T a ident L (s, w)))"
  by (cases "wpc w")
    (auto simp: wlocal_inv_def train_on_server_step_def next_idx_def wfail_def Let_def
          split: list.splits option.splits sum.splits bool.splits prod.splits if_splits)




text \<open>
  Claim C4. Let the worker be at the head of its loop with no batch left, after at least
  one batch (\<open>batch_idx\<close> is bound and a loss was recorded), and let it be registered in
  the loss and waiting dictionaries, as \<open>train_federated\<close> does for every worker.
  Its next step leaves the loop and the one after publishes its model in
  \<open>result_dict\<close>, under no condition. Three more steps store the arithmetic mean of all
  recorded losses under \<^verbatim>\<open>"final"\<close>, set the progress to \<open>(batch_idx + 1, L)\<close> and
  delete the worker's key from the waiting dictionary, where it is then absent.
\<close>

theorem train_on_server_completion:
  assumes "wpc w = WLoop" and "pending w = []" and "batch_idx w = Some i" and "avg_loss w \<noteq> []"
    and "getitem (loss_dict s) ident = Inr losses"
    and "map_of (waiting_for_sync_dict s) ident = Some flag"
    and "step = train_on_server_step T a ident L"
  shows "(step ^^ 2) (s, w)
           = (s\<lparr>result_dict := AList.update ident (Some (model w)) (result_dict s)\<rparr>,
              w\<lparr>wpc := WFinalLoss\<rparr>)
       \<and> (step ^^ 5) (s, w)
           = (s\<lparr>result_dict := AList.update ident (Some (model w)) (result_dict s),
                loss_dict := AList.update ident
                  (AList.update Final (Num (sum_list (avg_loss w) / real (length (avg_loss w)))) losses)
                  (loss_dict s),
                progress_dict := AList.update ident (i + 1, L) (progress_dict s),
                waiting_for_sync_dict := AList.delete ident (waiting_for_sync_dict s)\<rparr>,
              w\<lparr>wpc := WDone\<rparr>)
       \<and> map_of (AList.delete ident (waiting_for_sync_dict s)) ident = None
       \<and> ident \<notin> fst ` set (AList.delete ident (waiting_for_sync_dict s))"
proof -
  have 1: "step (s, w) = (s, w\<lparr>wpc := WFinalModel\<rparr>)"
    using assms by (simp add: train_on_server_step_def)
  have 2: "step (s, w\<lparr>wpc := WFinalModel\<rparr>)
         = (s\<lparr>result_dict := AList.update ident (Some (model w)) (result_dict s)\<rparr>,
            w\<lparr>wpc := WFinalLoss\<rparr>)"
    using assms by (simp add: train_on_server_step_def)
  have 3: "(step ^^ 3) (s\<lparr>result_dict := AList.update ident (Some (model w)) (result_dict s)\<rparr>,
            w\<lparr>wpc := WFinalLoss\<rparr>)
          = (s\<lparr>result_dict := AList.update ident (Some (model w)) (result_dict s),
                loss_dict := AList.update ident
                  (AList.update Final (Num (sum_list (avg_loss w) / real (length (avg_loss w)))) losses)
                  (loss_dict s),
                progress_dict := AList.update ident (i + 1, L) (progress_dict s),
                waiting_for_sync_dict := AList.delete ident (waiting_for_sync_dict s)\<rparr>,
              w\<lparr>wpc := WDone\<rparr>)"
    using assms by (simp add: train_on_server_step_def eval_nat_numeral np_mean_def delitem_def)
  have "(step ^^ 5) (s, w) = (step ^^ 3) ((step ^^ 2) (s, w))"
    by (simp add: eval_nat_numeral)
  moreover have 4: "(step ^^ 2) (s, w)
       = (s\<lparr>result_dict := AList.update ident (Some (model w)) (result_dict s)\<rparr>,
          w\<lparr>wpc := WFinalLoss\<rparr>)"
    using 1 2 by (simp add: eval_nat_numeral)
  ultimately have 5: "(step ^^ 5) (s, w)
           = (s\<lparr>result_dict := AList.update ident (Some (model w)) (result_dict s),
                loss_dict := AList.update ident
                  (AList.update Final (Num (sum_list (avg_loss w) / real (length (avg_loss w)))) losses)
                  (loss_dict s),
                progress_dict := AList.update ident (i + 1, L) (progress_dict s),
                waiting_for_sync_dict := AList.delete ident (waiting_for_sync_dict s)\<rparr>,
              w\<lparr>wpc := WDone\<rparr>)"
    using 3 by simp
  have 6: "map_of (AList.delete ident (waiting_for_sync_dict s)) ident = None"
    by (simp add: delete_conv')
  have 7: "ident \<notin> fst ` set (AList.delete ident (waiting_for_sync_dict s))"
    by (simp add: delete_notin_dom)
  show ?thesis using 4 5 6 7 by simp
qed

theorem train_on_server_completion_witness:
  "(train_on_server_step probe_trainer
      \<lparr>sync_every_n_batch = 10, wait_interval = Num (1 / 10), keep_optim_dict = False,
       weighted_averaging = False\<rparr> ''B'' 2 ^^ 5)
     (\<lparr>result_dict = [(''A'', None), (''B'', None)],
       waiting_for_sync_dict = [(''A'', False), (''B'', False)],
       sync_dict = [], progress_dict = [(''A'', (0, 4)), (''B'', (1, 2))],
       loss_dict = [(''A'', []), (''B'', [])], stop_sync = False, sync_completed = False\<rparr>,
      \<lparr>wpc = WLoop, batch_idx = Some 1, model = Num 7, optimizer = (), avg_loss = [3, 5],
       pending = [], wsleeps = []\<rparr>)
   = (\<lparr>result_dict = [(''A'', None), (''B'', Some (Num 7))],
       waiting_for_sync_dict = [(''A'', False)],
       sync_dict = [], progress_dict = [(''A'', (0, 4)), (''B'', (2, 2))],
       loss_dict = [(''A'', []), (''B'', [(Final, Num 4)])], stop_sync = False,
       sync_completed = False\<rparr>,
      \<lparr>wpc = WDone, batch_idx = Some 1, model = Num 7, optimizer = (), avg_loss = [3, 5],
       pending = [], wsleeps = []\<rparr>)"
proof -
  let ?s = "\<lparr>result_dict = [(''A'', None), (''B'', None)],
       waiting_for_sync_dict = [(''A'', False), (''B'', False)],
       sync_dict = [], progress_dict = [(''A'', (0, 4)), (''B'', (1, 2))],
       loss_dict = [(''A'', []), (''B'', [])], stop_sync = False, sync_completed = False\<rparr>
       :: pyfloat shared"
  let ?w = "\<lparr>wpc = WLoop, batch_idx = Some 1, model = Num 7, optimizer = (), avg_loss = [3, 5],
             pending = [], wsleeps = []\<rparr> :: (pyfloat, unit, real) wlocal"
  have h1: "wpc ?w = WLoop" by simp
  have h2: "pending ?w = []" by simp
  have h3: "batch_idx ?w = Some 1" by simp
  have h4: "avg_loss ?w \<noteq> []" by simp
  have h5: "getitem (loss_dict ?s) ''B'' = Inr []" by (simp add: getitem_def)
  have h6: "map_of (waiting_for_sync_dict ?s) ''B'' = Some False" by simp
  show ?thesis
    using train_on_server_completion[OF h1 h2 h3 h4 h5 h6 refl,
            where T = probe_trainer and L = 2 and a = "\<lparr>sync_every_n_batch = 10,
              wait_interval = Num (1 / 10), keep_optim_dict = False, weighted_averaging = False\<rparr>"]
    by simp
qed

section \<open>Configuration errors\<close>

lemma getint_error: "getint v fallback = Inl e \<Longrightarrow> e = ValueError"
  by (auto simp: getint_def split: option.splits parsed.splits)

lemma getfloat_error: "getfloat v fallback = Inl e \<Longrightarrow> e = ValueError"
  by (auto simp: getfloat_def split: option.splits parsed.splits)

lemma getboolean_error: "getboolean v fallback = Inl e \<Longrightarrow> e = ValueError"
  by (auto simp: getboolean_def Let_def split: option.splits if_splits)

lemma arguments_federated_error: "arguments_federated cfg = Inl e \<Longrightarrow> e = ValueError"
  by (auto simp: arguments_federated_def split: sum.splits
        dest: getint_error getfloat_error getboolean_error)

text \<open>
  Claim C9 does not hold as stated. A configuration whose synchronisation interval is
  \<open>-2\<close> is read without error, the shared state and the weights are set up as for any
  other value, and a worker started on that state with two batches trains on both and
  ends normally: no error is raised, neither at orchestration start nor later.
\<close>

theorem negative_sync_interval_counterexample:
  "(let cfg = \<lparr>sync_every_n_batch_opt = Some (Accepted (- 2)), wait_interval_opt = None,
                keep_optim_dict_opt = None, repetitions_dataset_opt = None,
                weighted_averaging_opt = None\<rparr>;
        a = \<lparr>sync_every_n_batch = - 2, wait_interval = Num (1 / 10), keep_optim_dict = False,
              weighted_averaging = False\<rparr>;
        s0 = train_federated_init [(''A'', 2)];
        (s1, w1) = (train_on_server_step probe_trainer a ''A'' 2 ^^ 9)
                     (s0, init_wlocal (Num 0) () [3, 5])
    in arguments_federated cfg = Inr a
       \<and> sync_every_n_batch a \<le> 0
       \<and> make_w_dict a (progress_dict s0) = [(''A'', Num 1)]
       \<and> wpc w1 = WDone \<and> avg_loss w1 = [3, 5]
       \<and> progress_dict s1 = [(''A'', (2, 2))])"
  by (simp add: arguments_federated_def getint_def getfloat_def getboolean_def
        train_federated_init_def register_worker_def empty_shared_def make_w_dict_def
        batch_weights_def total_batches_def np_divide_def train_on_server_step_def init_wlocal_def
        probe_trainer_def sync_point_def wfail_def getitem_def delitem_def np_mean_def
        eval_nat_numeral Let_def)

text \<open>
  Claim C9 as amended. An invalid weighting scheme, that is a text of the option
  \<^verbatim>\<open>weighted_averaging\<close> that is none of the eight boolean words, raises
  \<^verbatim>\<open>ValueError\<close> when the arguments are built: no arguments exist with which
  \<^verbatim>\<open>train_federated\<close> could be called, so the error comes before any worker starts. A
  non-positive synchronisation interval is not rejected: in a configuration whose other
  options are read without error it becomes the interval of the arguments as it is, and
  the orchestration start does not read it (the weights are the same for every value of
  it). An interval of zero surfaces only inside a worker: at its first pass through the
  head of the loop the worker records its progress and then fails with
  \<^verbatim>\<open>ZeroDivisionError\<close>. A negative interval never raises; the test then holds at the
  positive indices that are multiples of its absolute value.
\<close>

theorem invalid_weighting_rejected_interval_not:
  assumes "wpc w = WLoop" and "pending w = b # bs"
    and "i = (case batch_idx w of None \<Rightarrow> 0 | Some j \<Rightarrow> j + 1)"
  shows "(getboolean (weighted_averaging_opt cfg) False = Inl ValueError \<longrightarrow>
            arguments_federated cfg = Inl ValueError)
       \<and> (weighted_averaging_opt cfg = Some raw
            \<and> map ascii_lower raw
                  \<notin> set [''1'', ''yes'', ''true'', ''on'', ''0'', ''no'', ''false'', ''off''] \<longrightarrow>
            arguments_federated cfg = Inl ValueError)
       \<and> (sync_every_n_batch_opt cfg = Some (Accepted n)
            \<and> getfloat (wait_interval_opt cfg) (Num (1 / 10)) = Inr wi
            \<and> getboolean (keep_optim_dict_opt cfg) False = Inr keep
            \<and> getint (repetitions_dataset_opt cfg) 1 = Inr repetitions
            \<and> getboolean (weighted_averaging_opt cfg) False = Inr weighted \<longrightarrow>
            arguments_federated cfg
              = Inr \<lparr>sync_every_n_batch = n, wait_interval = wi, keep_optim_dict = keep,
                     weighted_averaging = weighted\<rparr>)
       \<and> make_w_dict (a\<lparr>sync_every_n_batch := n\<rparr>) pd = make_w_dict a pd
       \<and> (sync_every_n_batch a = 0 \<longrightarrow>
            train_on_server_step T a ident L (s, w)
              = (s\<lparr>progress_dict := AList.update ident (i, L) (progress_dict s)\<rparr>,
                 w\<lparr>batch_idx := Some i, wpc := WFailed ZeroDivisionError\<rparr>))
       \<and> (sync_every_n_batch a < 0 \<longrightarrow>
            sync_point a i = Inr (int i mod (- sync_every_n_batch a) = 0 \<and> 0 < i))"
proof -
  have inv: "arguments_federated cfg = Inl ValueError"
    if "getboolean (weighted_averaging_opt cfg) False = Inl ValueError"
  proof (cases "arguments_federated cfg")
    case (Inl e)
    then show ?thesis using arguments_federated_error by blast
  next
    case (Inr x)
    then show ?thesis using that
      by (auto simp: arguments_federated_def split: sum.splits)
  qed
  have word: "getboolean (weighted_averaging_opt cfg) False = Inl ValueError"
    if "weighted_averaging_opt cfg = Some raw
        \<and> map ascii_lower raw
              \<notin> set [''1'', ''yes'', ''true'', ''on'', ''0'', ''no'', ''false'', ''off'']"
    using that by (auto simp: getboolean_def Let_def)
  have ok: "arguments_federated cfg
              = Inr \<lparr>sync_every_n_batch = n, wait_interval = wi, keep_optim_dict = keep,
                     weighted_averaging = weighted\<rparr>"
    if "sync_every_n_batch_opt cfg = Some (Accepted n)
            \<and> getfloat (wait_interval_opt cfg) (Num (1 / 10)) = Inr wi
            \<and> getboolean (keep_optim_dict_opt cfg) False = Inr keep
            \<and> getint (repetitions_dataset_opt cfg) 1 = Inr repetitions
            \<and> getboolean (weighted_averaging_opt cfg) False = Inr weighted"
    using that by (simp add: arguments_federated_def getint_def)
  have 1: "make_w_dict (a\<lparr>sync_every_n_batch := n\<rparr>) pd = make_w_dict a pd"
    by (simp add: make_w_dict_def)
  have 2: "train_on_server_step T a ident L (s, w)
              = (s\<lparr>progress_dict := AList.update ident (i, L) (progress_dict s)\<rparr>,
                 w\<lparr>batch_idx := Some i, wpc := WFailed ZeroDivisionError\<rparr>)"
    if "sync_every_n_batch a = 0"
    using that assms by (simp add: train_on_server_step_def sync_point_def wfail_def Let_def)
  have 3: "sync_point a i = Inr (int i mod (- sync_every_n_batch a) = 0 \<and> 0 < i)"
    if "sync_every_n_batch a < 0"
    using that by (simp add: sync_point_def mod_eq_0_iff_dvd)
  show ?thesis using inv word ok 1 2 3 by blast
qed

theorem invalid_weighting_rejected_interval_not_witness:
  "arguments_federated
      \<lparr>sync_every_n_batch_opt = Some (Accepted 10), wait_interval_opt = None,
       keep_optim_dict_opt = None, repetitions_dataset_opt = None,
       weighted_averaging_opt = Some ''proportional''\<rparr> = Inl ValueError
   \<and> arguments_federated
      \<lparr>sync_every_n_batch_opt = Some (Accepted 0), wait_interval_opt = None,
       keep_optim_dict_opt = None, repetitions_dataset_opt = None,
       weighted_averaging_opt = None\<rparr>
     = Inr \<lparr>sync_every_n_batch = 0, wait_interval = Num (1 / 10), keep_optim_dict = False,
            weighted_averaging = False\<rparr>
   \<and> train_on_server_step probe_trainer
      \<lparr>sync_every_n_batch = 0, wait_interval = Num (1 / 10), keep_optim_dict = False,
       weighted_averaging = False\<rparr> ''A'' 2
      (train_federated_init [(''A'', 2)], init_wlocal (Num 0) () [3, 5])
   = (\<lparr>result_dict = [(''A'', None)], waiting_for_sync_dict = [(''A'', False)],
       sync_dict = [], progress_dict = [(''A'', (0, 2))],
       loss_dict = [(''A'', [])], stop_sync = False, sync_completed = False\<rparr>,
      \<lparr>wpc = WFailed ZeroDivisionError, batch_idx = Some 0, model = Num 0, optimizer = (),
       avg_loss = [], pending = [3, 5], wsleeps = []\<rparr>)
   \<and> sync_point \<lparr>sync_every_n_batch = - 2, wait_interval = Num (1 / 10), keep_optim_dict = False,
        weighted_averaging = False\<rparr> 4 = Inr True"
proof -
  let ?bad = "\<lparr>sync_every_n_batch_opt = Some (Accepted 10), wait_interval_opt = None,
       keep_optim_dict_opt = None, repetitions_dataset_opt = None,
       weighted_averaging_opt = Some ''proportional''\<rparr>"
  let ?zero = "\<lparr>sync_every_n_batch_opt = Some (Accepted 0), wait_interval_opt = None,
       keep_optim_dict_opt = None, repetitions_dataset_opt = None,
       weighted_averaging_opt = None\<rparr>"
  let ?az = "\<lparr>sync_every_n_batch = 0, wait_interval = Num (1 / 10), keep_optim_dict = False,
                      weighted_averaging = False\<rparr>"
  let ?an = "\<lparr>sync_every_n_batch = - 2, wait_interval = Num (1 / 10), keep_optim_dict = False,
                      weighted_averaging = False\<rparr>"
  let ?wi = "init_wlocal (Num 0) () [3, 5] :: (pyfloat, unit, real) wlocal"
  have h1: "wpc ?wi = WLoop" by (simp add: init_wlocal_def)
  have h2: "pending ?wi = 3 # [5]" by (simp add: init_wlocal_def)
  have h3: "(0::nat) = (case batch_idx ?wi of None \<Rightarrow> 0 | Some j \<Rightarrow> j + 1)"
    by (simp add: init_wlocal_def)
  have h4: "(4::nat) = (case batch_idx (?wi\<lparr>batch_idx := Some 3\<rparr>) of None \<Rightarrow> 0 | Some j \<Rightarrow> j + 1)"
    by simp
  have h5: "wpc (?wi\<lparr>batch_idx := Some 3\<rparr>) = WLoop" by (simp add: init_wlocal_def)
  have h6: "pending (?wi\<lparr>batch_idx := Some 3\<rparr>) = 3 # [5]" by (simp add: init_wlocal_def)
  have w: "map ascii_lower ''proportional''
              \<notin> set [''1'', ''yes'', ''true'', ''on'', ''0'', ''no'', ''false'', ''off'']"
    by code_simp
  note bad = invalid_weighting_rejected_interval_not[OF h1 h2 h3, where T = probe_trainer
            and a = ?az and ident = "''A''" and L = 2 and s = "train_federated_init [(''A'', 2)]"
            and cfg = ?bad and raw = "''proportional''"]
  note zero = invalid_weighting_rejected_interval_not[OF h1 h2 h3, where T = probe_trainer
            and a = ?az and ident = "''A''" and L = 2 and s = "train_federated_init [(''A'', 2)]"
            and cfg = ?zero and n = 0 and wi = "Num (1 / 10)" and keep = False
            and repetitions = 1 and weighted = False]
  note negative = invalid_weighting_rejected_interval_not[OF h5 h6 h4, where T = probe_trainer
            and a = ?an]
  have c1: "arguments_federated ?bad = Inl ValueError" using bad w by simp
  have c2: "arguments_federated ?zero = Inr ?az"
    using zero by (simp add: getint_def getfloat_def getboolean_def)
  have c3: "train_on_server_step probe_trainer ?az ''A'' 2
      (train_federated_init [(''A'', 2)], ?wi)
   = (\<lparr>result_dict = [(''A'', None)], waiting_for_sync_dict = [(''A'', False)],
       sync_dict = [], progress_dict = [(''A'', (0, 2))],
       loss_dict = [(''A'', [])], stop_sync = False, sync_completed = False\<rparr>,
      \<lparr>wpc = WFailed ZeroDivisionError, batch_idx = Some 0, model = Num 0, optimizer = (),
       avg_loss = [], pending = [3, 5], wsleeps = []\<rparr>)"
    using zero
    by (simp add: train_federated_init_def register_worker_def empty_shared_def init_wlocal_def)
  have c4: "sync_point ?an 4 = Inr True" using negative by simp
  show ?thesis using c1 c2 c3 c4 by simp
qed

section \<open>Properties of the aggregation function\<close>

text \<open>
  Claim C10. Called directly with an empty \<open>models\<close> dictionary, \<open>federated_avg\<close> is not a
  no-op: without weights (\<^verbatim>\<open>None\<close>, or an empty dictionary, which is falsy too) it raises
  \<^verbatim>\<open>IndexError\<close> from \<^verbatim>\<open>model_list[0]\<close>; with a non-empty weights dictionary it returns
  \<^verbatim>\<open>None\<close>, not a model. The no-op on zero submitted models is the coordinator's own
  branch on the size of \<^verbatim>\<open>result_dict\<close>: there the state is returned as it is, whatever
  the aggregation parameters are.
\<close>

theorem federated_avg_empty_models:
  "federated_avg L [] None = Inl IndexError
   \<and> federated_avg L [] (Some []) = Inl IndexError
   \<and> federated_avg L [] (Some (w # ws)) = Inr None
   \<and> resolve L weights (s\<lparr>result_dict := []\<rparr>) = Inr (s\<lparr>result_dict := []\<rparr>)"
  by (simp add: federated_avg_def resolve_def)

end
